theory Spec2Isabelle
  imports Main "HOL-Library.Char_ord" "HOL-Library.List_Lexorder"
begin

section \<open>Data model (internal/types)\<close>

text \<open>
  Time stamps are opaque clock readings. A JSON document on disk is modelled by the value
  it decodes to. A Go string is a sequence of bytes; \<open>json.MarshalIndent\<close> writes a
  string as JSON text and replaces every byte that is not part of a valid UTF-8 encoding
  by U+FFFD, so \<open>json.Unmarshal\<close> reads back the coerced string (\<open>json_coerce\<close>
  below).
\<close>

type_synonym time = nat

record VaultEntry =
  Name :: string
  URL :: string
  AddedOn :: time

record Vault =
  Repos :: "VaultEntry list"

record Clone =
  clone_Name :: string
  clone_Path :: string
  clone_Created :: time

record SyncInfo =
  Timestamp :: time
  Type :: string

record BuildConfig =
  BuildCommand :: string
  InstallCommand :: string
  Dependencies :: "string list"

record HookConfig =
  PreClone :: string
  PostClone :: string
  PreBuild :: string
  PostBuild :: string
  PreDestroy :: string
  PostDestroy :: string

record RepoMetadata =
  VaultURL :: string
  CreatedOn :: time
  LastUpdated :: time
  DefaultBranch :: string
  CurrentBranchHash :: string
  CachedArtifactDir :: string
  Clones :: "Clone list"
  Readme :: string
  SyncInterval :: string
  LastSync :: SyncInfo
  BuildConfig :: BuildConfig
  Hooks :: HookConfig

section \<open>Errors\<close>

text \<open>
  Errors of the git engine (go-git) and of the operating system are leaves; every
  \<open>fmt.Errorf("...: %w", err)\<close> of the source is a \<open>Wrap\<close> with the message prefix.
  The leaf errors the managers create themselves carry the name they are formatted with.
\<close>

datatype git_error =
    ErrRepositoryNotExists
  | ErrRepositoryNotFound
  | ErrRepositoryAlreadyExists
  | ErrAuthenticationRequired
  | ErrAuthorizationFailed
  | ErrRemoteNotFound
  | ErrIsBareRepository
  | ErrNonFastForwardUpdate
  | ErrReferenceNotFound
  | ErrObjectNotFound
  | ErrEmptyRemoteRepository
  | NoErrAlreadyUpToDate
  | ErrTransport
  | ErrFilesystem

datatype os_error = ENOENT | EIO

datatype err =
    GitError git_error
  | OSError os_error
  | JSONSyntaxError
  | URLOrPathEmpty
  | InvalidGitURLFormat
  | PathDoesNotExist string
  | PathIsNotAGitRepository string
  | CouldNotExtractName string
  | RepositoryAlreadyExistsInVault string
  | RepositoryNotFoundInVault string
  | CurrentDirNotAGitRepository
  | OriginRemoteHasNoURLs
  | PristineAlreadyExists string
  | PristineDoesNotExist string
  | PristineDoesNotExistRunInit string
  | CloneAlreadyExists string
  | CloneNotFoundInAnyMetadata string
  | TargetNotFound string
  | NoDefaultBranchFound
  | SomeRepositoriesFailedToInitialize "(string \<times> err) list"
  | SomeRepositoriesFailedToSync "(string \<times> err) list"
  | Wrap string err

section \<open>Strings and paths (strings, path/filepath, regexp)\<close>

definition HasPrefix :: "string \<Rightarrow> string \<Rightarrow> bool" where
  "HasPrefix s p = (take (length p) s = p)"

definition HasSuffix :: "string \<Rightarrow> string \<Rightarrow> bool" where
  "HasSuffix s suf = (length suf \<le> length s \<and> drop (length s - length suf) s = suf)"

definition TrimSuffix :: "string \<Rightarrow> string \<Rightarrow> string" where
  "TrimSuffix s suf = (if HasSuffix s suf then take (length s - length suf) s else s)"

fun Contains :: "string \<Rightarrow> string \<Rightarrow> bool" where
  "Contains [] sub = (sub = [])"
| "Contains (c # cs) sub = (HasPrefix (c # cs) sub \<or> Contains cs sub)"

text \<open>\<open>strings.Split\<close> with a separator of one character, the only use in the source.\<close>

fun Split :: "string \<Rightarrow> char \<Rightarrow> string list" where
  "Split [] sep = [[]]"
| "Split (c # cs) sep =
     (if c = sep then [] # Split cs sep
      else (case Split cs sep of [] \<Rightarrow> [[c]] | p # ps \<Rightarrow> (c # p) # ps))"

text \<open>
  \<open>filepath.Base\<close> with the separator \<open>/\<close>: the empty path gives \<open>.\<close>, trailing
  separators are dropped, a path of separators only gives \<open>/\<close>.
\<close>

definition filepath_Base :: "string \<Rightarrow> string" where
  "filepath_Base p =
     (if p = [] then ''.''
      else (let q = dropWhile (\<lambda>c. c = CHR ''/'') (rev p);
                r = rev (takeWhile (\<lambda>c. c \<noteq> CHR ''/'') q)
            in if r = [] then ''/'' else r))"

text \<open>
  \<open>filepath.Join\<close> of a cleaned directory and an element that is one plain name, as
  \<open>validateLocalPath\<close> joins \<open>.git\<close> to the result of \<open>filepath.Abs\<close>.
\<close>

definition filepath_Join :: "string \<Rightarrow> string \<Rightarrow> string" where
  "filepath_Join dir elem = (if dir = ''/'' then dir @ elem else dir @ ''/'' @ elem)"

text \<open>
  The pattern \<^verbatim>\<open>^(https?://|git@).*\.git$\<close> of \<open>validateURL\<close>: after one of the three
  prefixes, \<^verbatim>\<open>.*\<close> takes characters other than the line feed and the text ends with
  \<^verbatim>\<open>.git\<close>.
\<close>

definition dotstar_git_end :: "string \<Rightarrow> bool" where
  "dotstar_git_end rest =
     (HasSuffix rest ''.git'' \<and> CHR 0x0A \<notin> set (take (length rest - 4) rest))"

definition MatchString_urlPattern :: "string \<Rightarrow> bool" where
  "MatchString_urlPattern url =
     ((HasPrefix url ''http://'' \<and> dotstar_git_end (drop 7 url)) \<or>
      (HasPrefix url ''https://'' \<and> dotstar_git_end (drop 8 url)) \<or>
      (HasPrefix url ''git@'' \<and> dotstar_git_end (drop 4 url)))"

text \<open>
  A path as the list of its elements after \<open>filepath.Clean\<close>: empty elements and
  \<open>.\<close> are dropped, \<open>..\<close> takes the element before it away (and nothing at the
  root). \<open>Join_elems dir elem\<close> is \<open>filepath.Join(dir, elem)\<close> for an absolute
  \<open>dir\<close>; \<open>under t p\<close> says that \<open>p\<close> is \<open>t\<close> or lies below it.
\<close>

fun clean_elems :: "string list \<Rightarrow> string list \<Rightarrow> string list" where
  "clean_elems [] acc = rev acc"
| "clean_elems (e # es) acc =
     (if e = [] \<or> e = ''.'' then clean_elems es acc
      else if e = ''..'' then clean_elems es (tl acc)
      else clean_elems es (e # acc))"

definition path_elems :: "string \<Rightarrow> string list" where
  "path_elems p = clean_elems (Split p (CHR ''/'')) []"

definition Join_elems :: "string \<Rightarrow> string \<Rightarrow> string list" where
  "Join_elems dir elem = clean_elems (Split dir (CHR ''/'') @ Split elem (CHR ''/'')) []"

definition under :: "string list \<Rightarrow> string list \<Rightarrow> bool" where
  "under t p = (take (length t) p = t)"

text \<open>
  \<open>filepath.Join(dir, elem)\<close> as a string, for an absolute \<open>dir\<close> and any \<open>elem\<close>.
\<close>

definition render :: "string list \<Rightarrow> string" where
  "render es = (if es = [] then ''/'' else concat (map (\<lambda>e. CHR ''/'' # e) es))"

definition abs_Join :: "string \<Rightarrow> string \<Rightarrow> string" where
  "abs_Join dir elem = render (Join_elems dir elem)"

definition plain_name :: "string \<Rightarrow> bool" where
  "plain_name n = (n \<noteq> [] \<and> n \<noteq> ''.'' \<and> n \<noteq> ''..'' \<and> CHR ''/'' \<notin> set n)"

section \<open>JSON text (encoding/json)\<close>

text \<open>
  \<open>rune_len s\<close> is the number of bytes of the UTF-8 encoding at the start of \<open>s\<close>, and
  0 when the first byte starts none (the ranges of \<open>unicode/utf8\<close>: no overlong forms,
  no surrogates, nothing above U+10FFFF).
\<close>

definition cont_byte :: "char \<Rightarrow> bool" where
  "cont_byte c = (0x80 \<le> (of_char c :: nat) \<and> (of_char c :: nat) \<le> 0xBF)"

definition byte_in :: "char \<Rightarrow> nat \<Rightarrow> nat \<Rightarrow> bool" where
  "byte_in c lo hi = (lo \<le> (of_char c :: nat) \<and> (of_char c :: nat) \<le> hi)"

fun rune_len :: "string \<Rightarrow> nat" where
  "rune_len [] = 0"
| "rune_len (c # cs) =
     (if (of_char c :: nat) < 0x80 then 1
      else if byte_in c 0xC2 0xDF then
        (case cs of c1 # r \<Rightarrow> if cont_byte c1 then 2 else 0 | [] \<Rightarrow> 0)
      else if byte_in c 0xE0 0xEF then
        (case cs of
           c1 # c2 # r \<Rightarrow>
             if (if (of_char c :: nat) = 0xE0 then byte_in c1 0xA0 0xBF
                 else if (of_char c :: nat) = 0xED then byte_in c1 0x80 0x9F
                 else cont_byte c1) \<and> cont_byte c2
             then 3 else 0
         | [c1] \<Rightarrow> 0
         | [] \<Rightarrow> 0)
      else if byte_in c 0xF0 0xF4 then
        (case cs of
           c1 # c2 # c3 # r \<Rightarrow>
             if (if (of_char c :: nat) = 0xF0 then byte_in c1 0x90 0xBF
                 else if (of_char c :: nat) = 0xF4 then byte_in c1 0x80 0x8F
                 else cont_byte c1) \<and> cont_byte c2 \<and> cont_byte c3
             then 4 else 0
         | [c1, c2] \<Rightarrow> 0
         | [c1] \<Rightarrow> 0
         | [] \<Rightarrow> 0)
      else 0)"

text \<open>
  The string read back after writing: \<open>coerce k s\<close> copies the \<open>k\<close> bytes still owed
  to the rune being copied, then goes rune by rune and puts the three bytes of U+FFFD in
  the place of every byte that starts no valid encoding.
\<close>

fun coerce :: "nat \<Rightarrow> string \<Rightarrow> string" where
  "coerce k [] = []"
| "coerce (Suc k) (c # cs) = c # coerce k cs"
| "coerce 0 (c # cs) =
     (case rune_len (c # cs) of
        0 \<Rightarrow> [CHR 0xEF, CHR 0xBF, CHR 0xBD] @ coerce 0 cs
      | Suc n \<Rightarrow> c # coerce n cs)"

definition json_coerce :: "string \<Rightarrow> string" where
  "json_coerce s = coerce 0 s"

definition json_VaultEntry :: "VaultEntry \<Rightarrow> VaultEntry" where
  "json_VaultEntry e = e\<lparr>Name := json_coerce (Name e), URL := json_coerce (URL e)\<rparr>"

definition json_Vault :: "Vault \<Rightarrow> Vault" where
  "json_Vault v = v\<lparr>Repos := map json_VaultEntry (Repos v)\<rparr>"

definition json_Clone :: "Clone \<Rightarrow> Clone" where
  "json_Clone c = c\<lparr>clone_Name := json_coerce (clone_Name c),
                     clone_Path := json_coerce (clone_Path c)\<rparr>"

definition json_RepoMetadata :: "RepoMetadata \<Rightarrow> RepoMetadata" where
  "json_RepoMetadata m =
     m\<lparr>VaultURL := json_coerce (VaultURL m),
       DefaultBranch := json_coerce (DefaultBranch m),
       CurrentBranchHash := json_coerce (CurrentBranchHash m),
       CachedArtifactDir := json_coerce (CachedArtifactDir m),
       Clones := map json_Clone (Clones m),
       Readme := json_coerce (Readme m),
       SyncInterval := json_coerce (SyncInterval m),
       LastSync := (LastSync m)\<lparr>Type := json_coerce (Type (LastSync m))\<rparr>,
       BuildConfig :=
         \<lparr>BuildCommand = json_coerce (BuildCommand (BuildConfig m)),
          InstallCommand = json_coerce (InstallCommand (BuildConfig m)),
          Dependencies = map json_coerce (Dependencies (BuildConfig m))\<rparr>,
       Hooks :=
         \<lparr>PreClone = json_coerce (PreClone (Hooks m)),
          PostClone = json_coerce (PostClone (Hooks m)),
          PreBuild = json_coerce (PreBuild (Hooks m)),
          PostBuild = json_coerce (PostBuild (Hooks m)),
          PreDestroy = json_coerce (PreDestroy (Hooks m)),
          PostDestroy = json_coerce (PostDestroy (Hooks m))\<rparr>\<rparr>"

section \<open>The file system and the git engine\<close>

text \<open>
  A file holding a JSON document is absent, present but not readable, readable but not
  decodable, or decodes to a value.
\<close>

datatype 'a json_file = Absent | Unreadable | Corrupt | Doc 'a

text \<open>
  \<open>os.Stat\<close> answers with no error, with an error that \<open>os.IsNotExist\<close> recognises, or
  with another error. The source tests sometimes \<open>err == nil\<close> and sometimes
  \<open>os.IsNotExist(err)\<close>, so the three answers are kept apart.
\<close>

datatype node_kind = RegularFile | Directory

datatype stat_result = StatOk node_kind | StatNotExist | StatOtherError

text \<open>
  A git repository on disk, as far as the managers look at it: whether it is bare, a
  mirror, shallow; the URLs of its remote \<open>origin\<close>; the branch and the commit HEAD
  resolves to; the repository its \<open>objects/info/alternates\<close> file names; the commits in
  its own object store.
\<close>

record repo =
  is_bare :: bool
  mirror :: bool
  shallow :: bool
  origin_urls :: "string list option"
  head :: "(string \<times> string) option"
  alternates :: "string option"
  own_commits :: "string list"

text \<open>
  A directory under the pristines root or the clones root: missing, not accessible
  (\<open>os.Stat\<close> fails with another error), present without a repository in it, or holding
  a repository.
\<close>

datatype dir_state = NoDir | Inaccessible | PlainDir | RepoDir repo

fun stat_dir :: "dir_state \<Rightarrow> stat_result" where
  "stat_dir NoDir = StatNotExist"
| "stat_dir Inaccessible = StatOtherError"
| "stat_dir PlainDir = StatOk Directory"
| "stat_dir (RepoDir r) = StatOk Directory"

fun stat_ok :: "stat_result \<Rightarrow> bool" where
  "stat_ok (StatOk k) = True"
| "stat_ok StatNotExist = False"
| "stat_ok StatOtherError = False"

text \<open>
  What a repository answers when it is fetched from: the branch its HEAD points to, the
  commits reachable from HEAD (newest first), the refs it advertises (full names).
\<close>

record remote_repo =
  remote_head :: string
  remote_history :: "string list"
  remote_refs :: "(string \<times> string) list"

datatype auth_method = BasicAuth string string | PublicKeys string | SSHAgent

text \<open>
  The option structs of go-git, with the fields the source sets and the fields the claims
  are about. A field that a struct literal of the source leaves out has Go's zero value.
\<close>

record CloneOptions =
  opt_URL :: string
  opt_Auth :: "auth_method option"
  opt_ReferenceName :: string
  opt_SingleBranch :: bool
  opt_Mirror :: bool
  opt_Depth :: nat
  opt_Shared :: bool

record PullOptions =
  pull_RemoteName :: string
  pull_Auth :: "auth_method option"

record ListOptions =
  list_Auth :: "auth_method option"

text \<open>
  The repository of the current working directory, for \<open>AddFromCurrentDir\<close>: the
  remote the current branch tracks, the push default and the remotes of its configuration.
\<close>

record cwd_repo =
  tracked_remote :: "string option"
  push_default :: "string option"
  cfg_remotes :: "(string \<times> string list) list"

datatype io_op =
    WriteVaultFile
  | MkdirMetadataDir string
  | WriteMetadataFile string
  | ReadDirVault
  | MkdirPristine string
  | RemovePristine string
  | MkdirClone string
  | RemoveClone string

datatype event = Info string string | Count string nat | Warning string err

record Manager =
  vaultPath :: string
  pristinesPath :: string
  clonesPath :: string

text \<open>
  The state the three managers work on. The vault root holds \<open>vault.json\<close>
  (\<open>vault_file\<close>) and one directory for each repository with its \<open>metadata.json\<close>
  (\<open>meta_dirs\<close>, in the order \<open>os.ReadDir\<close> lists them, sorted by name); the pristines
  root and the clones root are looked at through the names the managers join to them:
  \<open>pristines w n\<close> and \<open>clones w n\<close> are what is found at
  \<open>filepath.Join(root, n)\<close>. \<open>roots\<close> holds the three configured roots
  (absolute paths). \<open>local_stat\<close> and \<open>abs_path\<close> answer
  \<open>os.Stat\<close> and \<open>filepath.Abs\<close> for paths outside the roots; \<open>network\<close> answers a
  fetch from a URL with the credentials offered, and \<open>net_log\<close> records every such
  request; \<open>is_ancestor\<close> and \<open>commit_files\<close> give the history and the tree of a
  commit; \<open>object_stores\<close> the commits that an alternates path leads to; \<open>io_fails\<close>
  says which file-system calls fail; \<open>clock\<close> is the sequence of readings of
  \<open>time.Now()\<close> and \<open>time_Format\<close> is \<open>Format("20060102-150405")\<close>.
\<close>

record world =
  roots :: Manager
  vault_file :: "Vault json_file"
  meta_dirs :: "(string \<times> RepoMetadata json_file) list"
  pristines :: "string \<Rightarrow> dir_state"
  clones :: "string \<Rightarrow> dir_state"
  local_stat :: "string \<Rightarrow> stat_result"
  abs_path :: "string \<Rightarrow> err + string"
  cwd_git :: "stat_result"
  cwd_open :: "git_error + cwd_repo"
  network :: "string \<Rightarrow> auth_method option \<Rightarrow> git_error + remote_repo"
  net_log :: "(string \<times> auth_method option) list"
  is_ancestor :: "string \<Rightarrow> string \<Rightarrow> bool"
  commit_files :: "string \<Rightarrow> string \<Rightarrow> string option"
  object_stores :: "string \<Rightarrow> string list"
  io_fails :: "io_op \<Rightarrow> bool"
  clock :: "nat \<Rightarrow> time"
  time_Format :: "time \<Rightarrow> string"
  ticks :: nat
  console :: "event list"

definition time_Now :: "world \<Rightarrow> time \<times> world" where
  "time_Now w = (clock w (ticks w), w\<lparr>ticks := Suc (ticks w)\<rparr>)"

definition print :: "event \<Rightarrow> world \<Rightarrow> world" where
  "print e w = w\<lparr>console := console w @ [e]\<rparr>"

section \<open>Vault manager (internal/vault/vault.go)\<close>

definition validateURL :: "string \<Rightarrow> err + string" where
  "validateURL url = (if \<not> MatchString_urlPattern url then Inl InvalidGitURLFormat else Inr url)"

definition validateLocalPath :: "world \<Rightarrow> string \<Rightarrow> err + string" where
  "validateLocalPath w path =
     (case abs_path w path of
        Inl e \<Rightarrow> Inl (Wrap ''invalid path'' e)
      | Inr absPath \<Rightarrow>
          if local_stat w absPath = StatNotExist then Inl (PathDoesNotExist absPath)
          else if local_stat w (filepath_Join absPath ''.git'') = StatNotExist
               then Inl (PathIsNotAGitRepository absPath)
          else Inr absPath)"

definition is_url :: "string \<Rightarrow> bool" where
  "is_url s = (HasPrefix s ''http://'' \<or> HasPrefix s ''https://'' \<or> HasPrefix s ''git@'')"

definition validateURLOrPath :: "world \<Rightarrow> string \<Rightarrow> err + string" where
  "validateURLOrPath w urlOrPath =
     (if urlOrPath = [] then Inl URLOrPathEmpty
      else if is_url urlOrPath then validateURL urlOrPath
      else validateLocalPath w urlOrPath)"

definition extractNameFromURL :: "string \<Rightarrow> err + string" where
  "extractNameFromURL url0 =
     (let url = TrimSuffix url0 ''.git'';
          name =
            (if Contains url ''github.com'' then
               (let parts = Split url (CHR ''/'')
                in if length parts \<ge> 2 then last parts else [])
             else if Contains url ''git@'' then
               (let parts = Split url (CHR '':'')
                in if length parts \<ge> 2 then filepath_Base (last parts) else [])
             else filepath_Base url)
      in if name = [] then Inl (CouldNotExtractName url) else Inr name)"

definition extractRepoName :: "string \<Rightarrow> err + string" where
  "extractRepoName urlOrPath =
     (if is_url urlOrPath then extractNameFromURL urlOrPath
      else Inr (filepath_Base urlOrPath))"

definition loadVault :: "world \<Rightarrow> err + Vault" where
  "loadVault w =
     (case vault_file w of
        Absent \<Rightarrow> Inr \<lparr>Repos = []\<rparr>
      | Unreadable \<Rightarrow> Inl (Wrap ''failed to read vault file'' (OSError EIO))
      | Corrupt \<Rightarrow> Inl (Wrap ''failed to unmarshal vault'' JSONSyntaxError)
      | Doc v \<Rightarrow> Inr v)"

definition saveVault :: "Vault \<Rightarrow> world \<Rightarrow> (err + unit) \<times> world" where
  "saveVault vault w =
     (if io_fails w WriteVaultFile
      then (Inl (Wrap ''failed to write vault file'' (OSError EIO)), w)
      else (Inr (), w\<lparr>vault_file := Doc (json_Vault vault)\<rparr>))"

fun repoExists :: "VaultEntry list \<Rightarrow> string \<Rightarrow> bool" where
  "repoExists [] name = False"
| "repoExists (r # rs) name = (if Name r = name then True else repoExists rs name)"

text \<open>
  Writing the metadata file of a directory under the vault root: the directory is made if
  it is missing, the file is replaced.
\<close>

definition put_meta :: "string \<Rightarrow> RepoMetadata json_file \<Rightarrow> world \<Rightarrow> world" where
  "put_meta name f w =
     w\<lparr>meta_dirs :=
        (if name \<in> fst ` set (meta_dirs w)
         then map (\<lambda>(k, v). if k = name then (k, f) else (k, v)) (meta_dirs w)
         else insort_key fst (name, f) (meta_dirs w))\<rparr>"

definition get_meta :: "world \<Rightarrow> string \<Rightarrow> RepoMetadata json_file" where
  "get_meta w name = (case map_of (meta_dirs w) name of None \<Rightarrow> Absent | Some f \<Rightarrow> f)"

definition new_metadata :: "string \<Rightarrow> time \<Rightarrow> time \<Rightarrow> RepoMetadata" where
  "new_metadata url t1 t2 =
     \<lparr>VaultURL = url, CreatedOn = t1, LastUpdated = t2,
      DefaultBranch = ''main'', CurrentBranchHash = [],
      CachedArtifactDir = [], Clones = [], Readme = [],
      SyncInterval = ''1h'',
      LastSync = \<lparr>Timestamp = 0, Type = []\<rparr>,
      BuildConfig = \<lparr>BuildCommand = [], InstallCommand = [], Dependencies = []\<rparr>,
      Hooks = \<lparr>PreClone = [], PostClone = [], PreBuild = [],
               PostBuild = [], PreDestroy = [], PostDestroy = []\<rparr>\<rparr>"

definition createMetadata :: "string \<Rightarrow> string \<Rightarrow> world \<Rightarrow> (err + unit) \<times> world" where
  "createMetadata name url w =
     (if io_fails w (MkdirMetadataDir name)
      then (Inl (Wrap ''failed to create metadata directory'' (OSError EIO)), w)
      else
        (let w1 = (if name \<in> fst ` set (meta_dirs w) then w else put_meta name Absent w);
             (t1, w2) = time_Now w1;
             (t2, w3) = time_Now w2;
             metadata = new_metadata url t1 t2
         in if io_fails w3 (WriteMetadataFile name)
            then (Inl (Wrap ''failed to write metadata file'' (OSError EIO)), w3)
            else (Inr (), put_meta name (Doc (json_RepoMetadata metadata)) w3)))"

definition Add :: "string \<Rightarrow> world \<Rightarrow> (err + unit) \<times> world" where
  "Add urlOrPath w =
     (case validateURLOrPath w urlOrPath of
        Inl e \<Rightarrow> (Inl (Wrap ''validation failed'' e), w)
      | Inr url \<Rightarrow>
     (case extractRepoName url of
        Inl e \<Rightarrow> (Inl (Wrap ''failed to extract repository name'' e), w)
      | Inr name \<Rightarrow>
     (case loadVault w of
        Inl e \<Rightarrow> (Inl (Wrap ''failed to load vault'' e), w)
      | Inr vault \<Rightarrow>
          if repoExists (Repos vault) name
          then (Inl (RepositoryAlreadyExistsInVault name), w)
          else
            (let (t, w1) = time_Now w;
                 vault' = vault\<lparr>Repos := Repos vault @
                            [\<lparr>Name = name, URL = url, AddedOn = t\<rparr>]\<rparr>
             in case saveVault vault' w1 of
                  (Inl e, w2) \<Rightarrow> (Inl (Wrap ''failed to save vault'' e), w2)
                | (Inr u, w2) \<Rightarrow>
                    (case createMetadata name url w2 of
                       (Inl e, w3) \<Rightarrow> (Inl (Wrap ''failed to create metadata'' e), w3)
                     | (Inr u', w3) \<Rightarrow>
                         (Inr (), print (Info ''Added repository to vault'' name) w3))))))"

definition List :: "world \<Rightarrow> err + VaultEntry list" where
  "List w =
     (case loadVault w of
        Inl e \<Rightarrow> Inl (Wrap ''failed to load vault'' e)
      | Inr vault \<Rightarrow> Inr (Repos vault))"

fun find_repo :: "VaultEntry list \<Rightarrow> string \<Rightarrow> VaultEntry option" where
  "find_repo [] name = None"
| "find_repo (r # rs) name = (if Name r = name then Some r else find_repo rs name)"

definition Get :: "world \<Rightarrow> string \<Rightarrow> err + VaultEntry" where
  "Get w name =
     (case loadVault w of
        Inl e \<Rightarrow> Inl (Wrap ''failed to load vault'' e)
      | Inr vault \<Rightarrow>
          (case find_repo (Repos vault) name of
             Some r \<Rightarrow> Inr r
           | None \<Rightarrow> Inl (RepositoryNotFoundInVault name)))"

definition getOriginRemote :: "world \<Rightarrow> err + string" where
  "getOriginRemote w =
     (case cwd_open w of
        Inl e \<Rightarrow> Inl (Wrap ''failed to open git repository'' (GitError e))
      | Inr r \<Rightarrow>
          (case map_of (cfg_remotes r) ''origin'' of
             None \<Rightarrow> Inl (Wrap ''no origin remote found'' (GitError ErrRemoteNotFound))
           | Some urls \<Rightarrow>
               (case urls of
                  [] \<Rightarrow> Inl OriginRemoteHasNoURLs
                | u # us \<Rightarrow> Inr u)))"

definition AddFromCurrentDir :: "world \<Rightarrow> (err + unit) \<times> world" where
  "AddFromCurrentDir w =
     (if cwd_git w = StatNotExist then (Inl CurrentDirNotAGitRepository, w)
      else
        (case getOriginRemote w of
           Inl e \<Rightarrow> (Inl (Wrap ''failed to get origin remote'' e), w)
         | Inr url \<Rightarrow> Add url w))"

section \<open>The git engine (go-git)\<close>

definition commits_of :: "world \<Rightarrow> repo \<Rightarrow> string list" where
  "commits_of w r =
     own_commits r @ (case alternates r of None \<Rightarrow> [] | Some p \<Rightarrow> object_stores w p)"

text \<open>A repository of the local disk as the source of a clone.\<close>

definition local_endpoint :: "world \<Rightarrow> dir_state \<Rightarrow> git_error + remote_repo" where
  "local_endpoint w d =
     (case d of
        RepoDir r \<Rightarrow>
          (case head r of
             None \<Rightarrow> Inl ErrEmptyRemoteRepository
           | Some (b, h) \<Rightarrow>
               Inr \<lparr>remote_head = b, remote_history = h # remove1 h (commits_of w r),
                    remote_refs = [(''refs/heads/'' @ b, h)]\<rparr>)
      | NoDir \<Rightarrow> Inl ErrRepositoryNotFound
      | Inaccessible \<Rightarrow> Inl ErrRepositoryNotFound
      | PlainDir \<Rightarrow> Inl ErrRepositoryNotFound)"

definition short_name :: "string \<Rightarrow> string" where
  "short_name n = (if HasPrefix n ''refs/heads/'' then drop 11 n else n)"

definition resolve_ref :: "remote_repo \<Rightarrow> string \<Rightarrow> (string \<times> string) option" where
  "resolve_ref rr n =
     (if n = [] \<or> n = ''HEAD'' then
        (case remote_history rr of [] \<Rightarrow> None | tip # older \<Rightarrow> Some (remote_head rr, tip))
      else map_option (\<lambda>h. (short_name n, h)) (map_of (remote_refs rr) n))"

definition request :: "string \<Rightarrow> auth_method option \<Rightarrow> world \<Rightarrow> (git_error + remote_repo) \<times> world" where
  "request url auth w = (network w url auth, w\<lparr>net_log := net_log w @ [(url, auth)]\<rparr>)"

text \<open>
  \<open>git.PlainClone(path, isBare, options)\<close> into a directory in state \<open>target\<close>
  (a missing directory is created, a directory that holds a repository is refused);
  \<open>fetch\<close> contacts the source named by the URL of the options. The new repository
  is bare when \<open>isBare\<close> is set, a mirror when \<open>Mirror\<close> is set, shallow when
  \<open>Depth\<close> is positive; with \<open>Shared\<close> its alternates file names the source and its
  own store stays empty, otherwise the fetched commits are copied into its own store.
\<close>

definition PlainClone ::
  "(world \<Rightarrow> (git_error + remote_repo) \<times> world) \<Rightarrow> dir_state \<Rightarrow> bool \<Rightarrow> CloneOptions \<Rightarrow>
     world \<Rightarrow> (git_error + repo) \<times> world" where
  "PlainClone fetch target isBare opts w =
     (case target of
        RepoDir r \<Rightarrow> (Inl ErrRepositoryAlreadyExists, w)
      | Inaccessible \<Rightarrow> (Inl ErrFilesystem, w)
      | _ \<Rightarrow>
          (case fetch w of
             (Inl e, w1) \<Rightarrow> (Inl e, w1)
           | (Inr rr, w1) \<Rightarrow>
               (case resolve_ref rr (opt_ReferenceName opts) of
                  None \<Rightarrow>
                    (Inl (if remote_history rr = [] then ErrEmptyRemoteRepository
                          else ErrReferenceNotFound), w1)
                | Some (b, tip) \<Rightarrow>
                    (Inr \<lparr>is_bare = isBare, mirror = opt_Mirror opts,
                          shallow = (0 < opt_Depth opts),
                          origin_urls = Some [opt_URL opts],
                          head = Some (b, tip),
                          alternates = (if opt_Shared opts then Some (opt_URL opts) else None),
                          own_commits =
                            (if opt_Shared opts then []
                             else if opt_Depth opts = 0 then remote_history rr
                             else take (opt_Depth opts) (remote_history rr))\<rparr>, w1))))"

definition PlainOpen :: "dir_state \<Rightarrow> git_error + repo" where
  "PlainOpen d =
     (case d of
        RepoDir r \<Rightarrow> Inr r
      | NoDir \<Rightarrow> Inl ErrRepositoryNotExists
      | Inaccessible \<Rightarrow> Inl ErrRepositoryNotExists
      | PlainDir \<Rightarrow> Inl ErrRepositoryNotExists)"

text \<open>
  A handle returned by \<open>git.PlainOpen\<close> refers to the repository on disk: the engine
  calls below take the name of the pristine directory and read and write the repository
  in it.
\<close>

definition Worktree :: "repo \<Rightarrow> git_error + unit" where
  "Worktree r = (if is_bare r then Inl ErrIsBareRepository else Inr ())"

text \<open>
  \<open>worktree.Pull(options)\<close>: fetch from the first URL of \<open>origin\<close> and fast-forward
  the branch of HEAD; \<open>NoErrAlreadyUpToDate\<close> when nothing is new.
\<close>

definition Pull :: "string \<Rightarrow> PullOptions \<Rightarrow> world \<Rightarrow> (git_error + unit) \<times> world" where
  "Pull name opts w =
     (case PlainOpen (pristines w name) of
        Inl e \<Rightarrow> (Inl e, w)
      | Inr r \<Rightarrow>
     (case origin_urls r of
        None \<Rightarrow> (Inl ErrRemoteNotFound, w)
      | Some [] \<Rightarrow> (Inl ErrRemoteNotFound, w)
      | Some (u # us) \<Rightarrow>
          (case request u (pull_Auth opts) w of
             (Inl e, w1) \<Rightarrow> (Inl e, w1)
           | (Inr rr, w1) \<Rightarrow>
               (case head r of
                  None \<Rightarrow> (Inl ErrReferenceNotFound, w1)
                | Some (b, h) \<Rightarrow>
                    (case map_of (remote_refs rr) (''refs/heads/'' @ b) of
                       None \<Rightarrow> (Inl ErrReferenceNotFound, w1)
                     | Some h' \<Rightarrow>
                         if h' = h then (Inl NoErrAlreadyUpToDate, w1)
                         else if \<not> is_ancestor w1 h h' then (Inl ErrNonFastForwardUpdate, w1)
                         else (Inr (),
                               w1\<lparr>pristines := (pristines w1)(name :=
                                    RepoDir (r\<lparr>head := Some (b, h'),
                                               own_commits := h' # own_commits r\<rparr>))\<rparr>))))))"

definition remote_List ::
  "repo \<Rightarrow> ListOptions \<Rightarrow> world \<Rightarrow> (git_error + (string \<times> string) list) \<times> world" where
  "remote_List r opts w =
     (case origin_urls r of
        None \<Rightarrow> (Inl ErrRemoteNotFound, w)
      | Some [] \<Rightarrow> (Inl ErrRemoteNotFound, w)
      | Some (u # us) \<Rightarrow>
          (case request u (list_Auth opts) w of
             (Inl e, w1) \<Rightarrow> (Inl e, w1)
           | (Inr rr, w1) \<Rightarrow> (Inr (remote_refs rr), w1)))"

definition Reset_hard :: "string \<Rightarrow> string \<Rightarrow> world \<Rightarrow> (git_error + unit) \<times> world" where
  "Reset_hard name h w =
     (case PlainOpen (pristines w name) of
        Inl e \<Rightarrow> (Inl e, w)
      | Inr r \<Rightarrow>
          (case head r of
             None \<Rightarrow> (Inl ErrReferenceNotFound, w)
           | Some (b, old) \<Rightarrow>
               if h \<notin> set (commits_of w r) then (Inl ErrObjectNotFound, w)
               else (Inr (),
                     w\<lparr>pristines := (pristines w)(name := RepoDir (r\<lparr>head := Some (b, h)\<rparr>))\<rparr>)))"

section \<open>Pristine manager (internal/pristine/pristine.go)\<close>

record RepoInfo =
  info_DefaultBranch :: string
  info_CurrentBranchHash :: string
  info_Readme :: string

definition read_vault_file :: "world \<Rightarrow> err + Vault" where
  "read_vault_file w =
     (case vault_file w of
        Absent \<Rightarrow> Inl (Wrap ''failed to read vault file'' (OSError ENOENT))
      | Unreadable \<Rightarrow> Inl (Wrap ''failed to read vault file'' (OSError EIO))
      | Corrupt \<Rightarrow> Inl (Wrap ''failed to unmarshal vault'' JSONSyntaxError)
      | Doc v \<Rightarrow> Inr v)"

definition loadRepoFromVault :: "world \<Rightarrow> string \<Rightarrow> err + VaultEntry" where
  "loadRepoFromVault w vaultName =
     (case read_vault_file w of
        Inl e \<Rightarrow> Inl e
      | Inr vault \<Rightarrow>
          (case find_repo (Repos vault) vaultName of
             Some r \<Rightarrow> Inr r
           | None \<Rightarrow> Inl (RepositoryNotFoundInVault vaultName)))"

definition loadAllReposFromVault :: "world \<Rightarrow> err + VaultEntry list" where
  "loadAllReposFromVault w =
     (case read_vault_file w of
        Inl e \<Rightarrow> Inl e
      | Inr vault \<Rightarrow> Inr (Repos vault))"

definition MkdirAll_pristine :: "string \<Rightarrow> world \<Rightarrow> (err + unit) \<times> world" where
  "MkdirAll_pristine name w =
     (if io_fails w (MkdirPristine name) \<or> pristines w name = Inaccessible
      then (Inl (OSError EIO), w)
      else (Inr (),
            if pristines w name = NoDir then w\<lparr>pristines := (pristines w)(name := PlainDir)\<rparr>
            else w))"

definition cloneAsReference_options :: "string \<Rightarrow> CloneOptions" where
  "cloneAsReference_options url =
     \<lparr>opt_URL = url, opt_Auth = None, opt_ReferenceName = ''HEAD'', opt_SingleBranch = True,
      opt_Mirror = False, opt_Depth = 1, opt_Shared = False\<rparr>"

definition cloneAsReference :: "string \<Rightarrow> string \<Rightarrow> world \<Rightarrow> (err + unit) \<times> world" where
  "cloneAsReference url name w =
     (case MkdirAll_pristine name w of
        (Inl e, w1) \<Rightarrow> (Inl (Wrap ''failed to create directory'' e), w1)
      | (Inr u, w1) \<Rightarrow>
          (let opts = cloneAsReference_options url
           in case PlainClone (request (opt_URL opts) (opt_Auth opts))
                     (pristines w1 name) False opts w1 of
                (Inl e, w2) \<Rightarrow> (Inl (Wrap ''failed to clone repository'' (GitError e)), w2)
              | (Inr r, w2) \<Rightarrow>
                  (Inr (), w2\<lparr>pristines := (pristines w2)(name := RepoDir r)\<rparr>)))"

fun first_readme :: "(string \<Rightarrow> string option) \<Rightarrow> string list \<Rightarrow> string" where
  "first_readme files [] = []"
| "first_readme files (n # ns) =
     (case files n of
        Some content \<Rightarrow> (if 500 < length content then take 500 content @ ''...'' else content)
      | None \<Rightarrow> first_readme files ns)"

definition extractRepoInfo :: "world \<Rightarrow> dir_state \<Rightarrow> err + RepoInfo" where
  "extractRepoInfo w d =
     (case PlainOpen d of
        Inl e \<Rightarrow> Inl (Wrap ''failed to open repository'' (GitError e))
      | Inr r \<Rightarrow>
          (case head r of
             None \<Rightarrow> Inl (Wrap ''failed to get HEAD'' (GitError ErrReferenceNotFound))
           | Some (b, h) \<Rightarrow>
               if h \<notin> set (commits_of w r)
               then Inl (Wrap ''failed to get commit'' (GitError ErrObjectNotFound))
               else Inr \<lparr>info_DefaultBranch = b, info_CurrentBranchHash = h,
                         info_Readme =
                           (if is_bare r then []
                            else first_readme (commit_files w h)
                                   [''README.md'', ''README.rst'', ''README.txt'', ''README''])\<rparr>))"

definition updateMetadata :: "string \<Rightarrow> RepoInfo \<Rightarrow> world \<Rightarrow> (err + unit) \<times> world" where
  "updateMetadata vaultName info w =
     (case get_meta w vaultName of
        Absent \<Rightarrow> (Inl (Wrap ''failed to read metadata file'' (OSError ENOENT)), w)
      | Unreadable \<Rightarrow> (Inl (Wrap ''failed to read metadata file'' (OSError EIO)), w)
      | Corrupt \<Rightarrow> (Inl (Wrap ''failed to unmarshal metadata'' JSONSyntaxError), w)
      | Doc metadata \<Rightarrow>
          (let (t1, w1) = time_Now w;
               (t2, w2) = time_Now w1;
               metadata' = metadata\<lparr>LastUpdated := t1,
                             DefaultBranch := info_DefaultBranch info,
                             CurrentBranchHash := info_CurrentBranchHash info,
                             Readme := info_Readme info,
                             LastSync := \<lparr>Timestamp = t2, Type = ''manual''\<rparr>\<rparr>
           in if io_fails w2 (WriteMetadataFile vaultName)
              then (Inl (Wrap ''failed to write metadata file'' (OSError EIO)), w2)
              else (Inr (), put_meta vaultName (Doc (json_RepoMetadata metadata')) w2)))"

definition Init :: "string \<Rightarrow> world \<Rightarrow> (err + unit) \<times> world" where
  "Init vaultName w =
     (case loadRepoFromVault w vaultName of
        Inl e \<Rightarrow> (Inl (Wrap ''failed to load repository from vault'' e), w)
      | Inr repo \<Rightarrow>
          if stat_ok (stat_dir (pristines w vaultName))
          then (Inl (PristineAlreadyExists vaultName), w)
          else
            (case cloneAsReference (URL repo) vaultName w of
               (Inl e, w1) \<Rightarrow> (Inl (Wrap ''failed to clone repository'' e), w1)
             | (Inr u, w1) \<Rightarrow>
                 (case extractRepoInfo w1 (pristines w1 vaultName) of
                    Inl e \<Rightarrow> (Inl (Wrap ''failed to extract repository info'' e), w1)
                  | Inr info \<Rightarrow>
                      (case updateMetadata vaultName info w1 of
                         (Inl e, w2) \<Rightarrow> (Inl (Wrap ''failed to update metadata'' e), w2)
                       | (Inr u', w2) \<Rightarrow>
                           (Inr (), print (Info ''Initialized pristine'' vaultName) w2)))))"

fun first_default_branch :: "(string \<times> string) list \<Rightarrow> (string \<times> string) option" where
  "first_default_branch [] = None"
| "first_default_branch ((n, h) # refs) =
     (if HasPrefix n ''refs/heads/'' \<and> (short_name n = ''main'' \<or> short_name n = ''master'')
      then Some (n, h)
      else first_default_branch refs)"

definition hardResetToOrigin :: "string \<Rightarrow> world \<Rightarrow> (err + unit) \<times> world" where
  "hardResetToOrigin name w =
     (case PlainOpen (pristines w name) of
        Inl e \<Rightarrow> (Inl (Wrap ''failed to get origin remote'' (GitError e)), w)
      | Inr r \<Rightarrow>
     (if origin_urls r = None
      then (Inl (Wrap ''failed to get origin remote'' (GitError ErrRemoteNotFound)), w)
      else
        (case remote_List r \<lparr>list_Auth = None\<rparr> w of
           (Inl e, w1) \<Rightarrow> (Inl (Wrap ''failed to list origin refs'' (GitError e)), w1)
         | (Inr refs, w1) \<Rightarrow>
             (case first_default_branch refs of
                None \<Rightarrow> (Inl NoDefaultBranchFound, w1)
              | Some (n, h) \<Rightarrow>
                  (case Worktree r of
                     Inl e \<Rightarrow> (Inl (Wrap ''failed to get worktree'' (GitError e)), w1)
                   | Inr u \<Rightarrow>
                       (case Reset_hard name h w1 of
                          (Inl e, w2) \<Rightarrow> (Inl (Wrap ''failed to reset'' (GitError e)), w2)
                        | (Inr u', w2) \<Rightarrow> (Inr (), w2)))))))"

definition Sync :: "string \<Rightarrow> world \<Rightarrow> (err + unit) \<times> world" where
  "Sync vaultName w =
     (if stat_dir (pristines w vaultName) = StatNotExist
      then (Inl (PristineDoesNotExist vaultName), w)
      else
        (case PlainOpen (pristines w vaultName) of
           Inl e \<Rightarrow> (Inl (Wrap ''failed to open pristine repository'' (GitError e)), w)
         | Inr r \<Rightarrow>
        (case Worktree r of
           Inl e \<Rightarrow> (Inl (Wrap ''failed to get worktree'' (GitError e)), w)
         | Inr u \<Rightarrow>
        (case Pull vaultName \<lparr>pull_RemoteName = [], pull_Auth = None\<rparr> w of
           (pulled, w1) \<Rightarrow>
        (case (case pulled of
                 Inl e \<Rightarrow> if e \<noteq> NoErrAlreadyUpToDate then Some e else None
               | Inr u' \<Rightarrow> None) of
           Some e \<Rightarrow> (Inl (Wrap ''failed to pull changes'' (GitError e)), w1)
         | None \<Rightarrow>
        (case hardResetToOrigin vaultName w1 of
           (Inl e, w2) \<Rightarrow> (Inl (Wrap ''failed to reset to origin'' e), w2)
         | (Inr u', w2) \<Rightarrow>
        (case extractRepoInfo w2 (pristines w2 vaultName) of
           Inl e \<Rightarrow> (Inl (Wrap ''failed to extract repository info'' e), w2)
         | Inr info \<Rightarrow>
        (case updateMetadata vaultName info w2 of
           (Inl e, w3) \<Rightarrow> (Inl (Wrap ''failed to update metadata'' e), w3)
         | (Inr u', w3) \<Rightarrow> (Inr (), print (Info ''Synced pristine'' vaultName) w3)))))))))"

text \<open>
  The loop of \<open>InitAll\<close> and \<open>SyncAll\<close>: every repository is visited in the order of the
  vault; a failure is appended to \<open>errors\<close> and the loop goes on.
\<close>

fun InitAll_loop ::
  "VaultEntry list \<Rightarrow> (string \<times> err) list \<Rightarrow> world \<Rightarrow> (string \<times> err) list \<times> world" where
  "InitAll_loop [] errors w = (errors, w)"
| "InitAll_loop (repo # repos) errors w =
     (case Init (Name repo) w of
        (Inl e, w1) \<Rightarrow> InitAll_loop repos (errors @ [(Name repo, e)]) w1
      | (Inr u, w1) \<Rightarrow> InitAll_loop repos errors w1)"

definition InitAll :: "world \<Rightarrow> (err + unit) \<times> world" where
  "InitAll w =
     (case loadAllReposFromVault w of
        Inl e \<Rightarrow> (Inl (Wrap ''failed to load repositories from vault'' e), w)
      | Inr repos \<Rightarrow>
          (case InitAll_loop repos [] w of
             (errors, w1) \<Rightarrow>
               if 0 < length errors then (Inl (SomeRepositoriesFailedToInitialize errors), w1)
               else (Inr (), print (Count ''Initialized repositories'' (length repos)) w1)))"

fun SyncAll_loop ::
  "VaultEntry list \<Rightarrow> (string \<times> err) list \<Rightarrow> world \<Rightarrow> (string \<times> err) list \<times> world" where
  "SyncAll_loop [] errors w = (errors, w)"
| "SyncAll_loop (repo # repos) errors w =
     (case Sync (Name repo) w of
        (Inl e, w1) \<Rightarrow> SyncAll_loop repos (errors @ [(Name repo, e)]) w1
      | (Inr u, w1) \<Rightarrow> SyncAll_loop repos errors w1)"

definition SyncAll :: "world \<Rightarrow> (err + unit) \<times> world" where
  "SyncAll w =
     (case loadAllReposFromVault w of
        Inl e \<Rightarrow> (Inl (Wrap ''failed to load repositories from vault'' e), w)
      | Inr repos \<Rightarrow>
          (case SyncAll_loop repos [] w of
             (errors, w1) \<Rightarrow>
               if 0 < length errors then (Inl (SomeRepositoriesFailedToSync errors), w1)
               else (Inr (), print (Count ''Synced repositories'' (length repos)) w1)))"

section \<open>Clone manager (internal/clone/clone.go)\<close>

definition generateCloneName :: "string \<Rightarrow> world \<Rightarrow> string \<times> world" where
  "generateCloneName pristineName w =
     (let (t, w1) = time_Now w
      in (pristineName @ ''-clone-'' @ time_Format w1 t, w1))"

definition cloneExists :: "world \<Rightarrow> string \<Rightarrow> bool" where
  "cloneExists w cloneName = stat_ok (stat_dir (clones w cloneName))"

definition MkdirAll_clone :: "string \<Rightarrow> world \<Rightarrow> (err + unit) \<times> world" where
  "MkdirAll_clone name w =
     (if io_fails w (MkdirClone name) \<or> clones w name = Inaccessible
      then (Inl (OSError EIO), w)
      else (Inr (),
            if clones w name = NoDir then w\<lparr>clones := (clones w)(name := PlainDir)\<rparr>
            else w))"

text \<open>
  \<open>os.RemoveAll\<close> of the cleaned path \<open>t\<close>: whatever is \<open>t\<close> or lies below it is
  gone, be it the vault index, a metadata directory or its file, a pristine or a clone. A
  repository that loses something inside its directory is no longer taken as a
  repository.
\<close>

fun damaged :: "dir_state \<Rightarrow> dir_state" where
  "damaged (RepoDir r) = PlainDir"
| "damaged NoDir = NoDir"
| "damaged Inaccessible = Inaccessible"
| "damaged PlainDir = PlainDir"

definition remove_below :: "string list \<Rightarrow> string \<Rightarrow> (string \<Rightarrow> dir_state) \<Rightarrow> string \<Rightarrow> dir_state" where
  "remove_below t root dirs k =
     (if under t (Join_elems root k) then NoDir
      else if under (Join_elems root k) t then damaged (dirs k)
      else dirs k)"

definition RemoveAll_tree :: "string list \<Rightarrow> world \<Rightarrow> world" where
  "RemoveAll_tree t w =
     w\<lparr>vault_file :=
         (if under t (Join_elems (vaultPath (roots w)) ''vault.json'') then Absent
          else vault_file w),
       meta_dirs :=
         map (\<lambda>(k, f). (k, if t = Join_elems (vaultPath (roots w)) k @ [''metadata.json'']
                            then Absent else f))
           (filter (\<lambda>(k, f). \<not> under t (Join_elems (vaultPath (roots w)) k)) (meta_dirs w)),
       pristines := remove_below t (pristinesPath (roots w)) (pristines w),
       clones := remove_below t (clonesPath (roots w)) (clones w),
       local_stat := (\<lambda>p. if under t (path_elems p) then StatNotExist else local_stat w p)\<rparr>"

definition RemoveAll_clone :: "string \<Rightarrow> world \<Rightarrow> (err + unit) \<times> world" where
  "RemoveAll_clone name w =
     (if io_fails w (RemoveClone name) then (Inl (OSError EIO), w)
      else (Inr (), RemoveAll_tree (Join_elems (clonesPath (roots w)) name) w))"

definition RemoveAll_pristine :: "string \<Rightarrow> world \<Rightarrow> (err + unit) \<times> world" where
  "RemoveAll_pristine name w =
     (if io_fails w (RemovePristine name) then (Inl (OSError EIO), w)
      else (Inr (), RemoveAll_tree (Join_elems (pristinesPath (roots w)) name) w))"

text \<open>
  The layout the managers are meant for: neither the vault root nor the clones root lies
  in the pristines root, nor the pristines root in one of them.
\<close>

definition separate_roots :: "Manager \<Rightarrow> bool" where
  "separate_roots m =
     (\<not> under (path_elems (pristinesPath m)) (path_elems (vaultPath m)) \<and>
      \<not> under (path_elems (vaultPath m)) (path_elems (pristinesPath m)) \<and>
      \<not> under (path_elems (pristinesPath m)) (path_elems (clonesPath m)) \<and>
      \<not> under (path_elems (clonesPath m)) (path_elems (pristinesPath m)))"

definition cloneRepository_options :: "string \<Rightarrow> CloneOptions" where
  "cloneRepository_options sourcePath =
     \<lparr>opt_URL = sourcePath, opt_Auth = None, opt_ReferenceName = [], opt_SingleBranch = False,
      opt_Mirror = False, opt_Depth = 0, opt_Shared = False\<rparr>"

text \<open>
  \<open>cloneRepository(sourcePath, targetPath)\<close> with \<open>sourcePath\<close> the directory of the
  pristine and \<open>targetPath\<close> the directory of the clone.
\<close>

definition cloneRepository :: "string \<Rightarrow> string \<Rightarrow> world \<Rightarrow> (err + unit) \<times> world" where
  "cloneRepository pristineName cloneName w =
     (let opts = cloneRepository_options (abs_Join (pristinesPath (roots w)) pristineName)
      in case PlainClone (\<lambda>w0. (local_endpoint w0 (pristines w0 pristineName), w0))
                (clones w cloneName) False opts w of
           (Inl e, w1) \<Rightarrow> (Inl (Wrap ''failed to clone from pristine'' (GitError e)), w1)
         | (Inr r, w1) \<Rightarrow> (Inr (), w1\<lparr>clones := (clones w1)(cloneName := RepoDir r)\<rparr>))"

definition loadMetadata :: "world \<Rightarrow> string \<Rightarrow> err + RepoMetadata" where
  "loadMetadata w repoName =
     (case get_meta w repoName of
        Absent \<Rightarrow> Inl (Wrap ''failed to read metadata file'' (OSError ENOENT))
      | Unreadable \<Rightarrow> Inl (Wrap ''failed to read metadata file'' (OSError EIO))
      | Corrupt \<Rightarrow> Inl (Wrap ''failed to unmarshal metadata'' JSONSyntaxError)
      | Doc metadata \<Rightarrow> Inr metadata)"

definition saveMetadata :: "string \<Rightarrow> RepoMetadata \<Rightarrow> world \<Rightarrow> (err + unit) \<times> world" where
  "saveMetadata repoName metadata w =
     (if io_fails w (WriteMetadataFile repoName)
      then (Inl (Wrap ''failed to write metadata file'' (OSError EIO)), w)
      else (Inr (), put_meta repoName (Doc (json_RepoMetadata metadata)) w))"

definition addCloneToMetadata ::
  "string \<Rightarrow> string \<Rightarrow> string \<Rightarrow> world \<Rightarrow> (err + unit) \<times> world" where
  "addCloneToMetadata repoName cloneName clonePath w =
     (case loadMetadata w repoName of
        Inl e \<Rightarrow> (Inl (Wrap ''failed to load metadata'' e), w)
      | Inr metadata \<Rightarrow>
          (let (t1, w1) = time_Now w;
               newClone = \<lparr>clone_Name = cloneName, clone_Path = clonePath, clone_Created = t1\<rparr>;
               (t2, w2) = time_Now w1;
               metadata' = metadata\<lparr>Clones := Clones metadata @ [newClone], LastUpdated := t2\<rparr>
           in case saveMetadata repoName metadata' w2 of
                (Inl e, w3) \<Rightarrow> (Inl (Wrap ''failed to save metadata'' e), w3)
              | (Inr u, w3) \<Rightarrow> (Inr (), w3)))"

fun removeClone_loop ::
  "(string \<times> RepoMetadata json_file) list \<Rightarrow> string \<Rightarrow> world \<Rightarrow> (err + unit) \<times> world" where
  "removeClone_loop [] cloneName w = (Inl (CloneNotFoundInAnyMetadata cloneName), w)"
| "removeClone_loop ((dir, f) # entries) cloneName w =
     (case f of
        Doc metadata \<Rightarrow>
          (let updatedClones = filter (\<lambda>c. clone_Name c \<noteq> cloneName) (Clones metadata)
           in if length updatedClones \<noteq> length (Clones metadata)
              then (let (t, w1) = time_Now w
                    in saveMetadata dir (metadata\<lparr>Clones := updatedClones, LastUpdated := t\<rparr>) w1)
              else removeClone_loop entries cloneName w)
      | Absent \<Rightarrow> removeClone_loop entries cloneName w
      | Unreadable \<Rightarrow> removeClone_loop entries cloneName w
      | Corrupt \<Rightarrow> removeClone_loop entries cloneName w)"

definition removeCloneFromMetadata :: "string \<Rightarrow> world \<Rightarrow> (err + unit) \<times> world" where
  "removeCloneFromMetadata cloneName w =
     (if io_fails w ReadDirVault
      then (Inl (Wrap ''failed to read vault directory'' (OSError EIO)), w)
      else removeClone_loop (meta_dirs w) cloneName w)"

definition Clone :: "string \<Rightarrow> string \<Rightarrow> world \<Rightarrow> (err + unit) \<times> world" where
  "Clone pristineName cloneName0 w =
     (if stat_dir (pristines w pristineName) = StatNotExist
      then (Inl (PristineDoesNotExistRunInit pristineName), w)
      else
        (let (cloneName, w0) =
               (if cloneName0 = [] then generateCloneName pristineName w else (cloneName0, w))
         in if cloneExists w0 cloneName then (Inl (CloneAlreadyExists cloneName), w0)
            else
              (case MkdirAll_clone cloneName w0 of
                 (Inl e, w1) \<Rightarrow> (Inl (Wrap ''failed to create clone directory'' e), w1)
               | (Inr u, w1) \<Rightarrow>
              (case cloneRepository pristineName cloneName w1 of
                 (Inl e, w2) \<Rightarrow>
                   (Inl (Wrap ''failed to clone repository'' e),
                    snd (RemoveAll_clone cloneName w2))
               | (Inr u', w2) \<Rightarrow>
              (case addCloneToMetadata pristineName cloneName
                      (abs_Join (clonesPath (roots w2)) cloneName) w2 of
                 (Inl e, w3) \<Rightarrow>
                   (Inl (Wrap ''failed to update metadata'' e),
                    snd (RemoveAll_clone cloneName w3))
               | (Inr u'', w3) \<Rightarrow> (Inr (), print (Info ''Created clone'' cloneName) w3))))))"

definition destroyClone :: "string \<Rightarrow> world \<Rightarrow> (err + unit) \<times> world" where
  "destroyClone cloneName w =
     (case RemoveAll_clone cloneName w of
        (Inl e, w1) \<Rightarrow> (Inl (Wrap ''failed to remove clone directory'' e), w1)
      | (Inr u, w1) \<Rightarrow>
          (let w2 = (case removeCloneFromMetadata cloneName w1 of
                       (Inl e, w') \<Rightarrow> print (Warning ''failed to update metadata'' e) w'
                     | (Inr u', w') \<Rightarrow> w')
           in (Inr (), print (Info ''Destroyed clone'' cloneName) w2)))"

definition destroyPristine :: "string \<Rightarrow> world \<Rightarrow> (err + unit) \<times> world" where
  "destroyPristine pristineName w =
     (case RemoveAll_pristine pristineName w of
        (Inl e, w1) \<Rightarrow> (Inl (Wrap ''failed to remove pristine directory'' e), w1)
      | (Inr u, w1) \<Rightarrow> (Inr (), print (Info ''Destroyed pristine (kept in vault)'' pristineName) w1))"

definition Destroy :: "string \<Rightarrow> world \<Rightarrow> (err + unit) \<times> world" where
  "Destroy target w =
     (if stat_ok (stat_dir (clones w target)) then destroyClone target w
      else if stat_ok (stat_dir (pristines w target)) then destroyPristine target w
      else (Inl (TargetNotFound target), w))"

section \<open>The specification's wording, for comparison\<close>

text \<open>
  The default remote as the specification words it: the remote the current branch tracks,
  else the push default, else \<open>origin\<close>, else the first remote in lexical order; and
  the URLs it says are retained, the default first.
\<close>

definition select_default_remote_spec :: "cwd_repo \<Rightarrow> string option" where
  "select_default_remote_spec r =
     (case tracked_remote r of
        Some n \<Rightarrow> Some n
      | None \<Rightarrow>
     (case push_default r of
        Some n \<Rightarrow> Some n
      | None \<Rightarrow>
          if ''origin'' \<in> set (map fst (cfg_remotes r)) then Some ''origin''
          else (case sort (map fst (cfg_remotes r)) of [] \<Rightarrow> None | n # ns \<Rightarrow> Some n)))"

definition retained_urls_spec :: "cwd_repo \<Rightarrow> string list" where
  "retained_urls_spec r =
     (case select_default_remote_spec r of
        None \<Rightarrow> []
      | Some d \<Rightarrow>
          (case map_of (cfg_remotes r) d of None \<Rightarrow> [] | Some us \<Rightarrow> us) @
          concat (map snd (filter (\<lambda>(n, us). n \<noteq> d) (cfg_remotes r))))"

text \<open>
  The aggregate report as the specification words it: the operation is run for every
  name, each outcome is kept with its name, and the report is returned when all have run.
\<close>

fun bulk_report ::
  "(string \<Rightarrow> world \<Rightarrow> (err + unit) \<times> world) \<Rightarrow> string list \<Rightarrow> world \<Rightarrow>
     (string \<times> (err + unit)) list \<times> world" where
  "bulk_report operation [] w = ([], w)"
| "bulk_report operation (n # ns) w =
     (case operation n w of
        (res, w1) \<Rightarrow>
          (case bulk_report operation ns w1 of
             (report, w2) \<Rightarrow> ((n, res) # report, w2)))"

fun failures :: "(string \<times> (err + unit)) list \<Rightarrow> (string \<times> err) list" where
  "failures [] = []"
| "failures ((n, Inl e) # report) = (n, e) # failures report"
| "failures ((n, Inr u) # report) = failures report"

fun successes :: "(string \<times> (err + unit)) list \<Rightarrow> string list" where
  "successes [] = []"
| "successes ((n, Inl e) # report) = successes report"
| "successes ((n, Inr u) # report) = n # successes report"

text \<open>
  Between two states the log of network requests has grown by at most \<open>k\<close> requests,
  each of them carrying no credentials.
\<close>

definition anonymous_requests :: "world \<Rightarrow> world \<Rightarrow> nat \<Rightarrow> bool" where
  "anonymous_requests w w' k =
     (take (length (net_log w)) (net_log w') = net_log w \<and>
      length (net_log w') \<le> length (net_log w) + k \<and>
      list_all (\<lambda>q. snd q = None) (drop (length (net_log w)) (net_log w')))"

section \<open>Example states\<close>

definition example_manager :: Manager where
  "example_manager =
     \<lparr>vaultPath = ''/home/dev/.repoman/vault'', pristinesPath = ''/home/dev/.repoman/pristines'',
      clonesPath = ''/home/dev/.repoman/clones''\<rparr>"

definition fresh_world :: world where
  "fresh_world =
     \<lparr>roots = example_manager, vault_file = Absent, meta_dirs = [],
      pristines = (\<lambda>n. NoDir), clones = (\<lambda>n. NoDir),
      local_stat = (\<lambda>p. if p = ''/home/dev/proj'' then StatOk Directory
                          else if p = ''/home/dev/proj/.git'' then StatOk RegularFile
                          else StatNotExist),
      abs_path = (\<lambda>p. Inr (if HasPrefix p ''/'' then p else filepath_Join ''/home/dev'' p)),
      cwd_git = StatNotExist, cwd_open = Inl ErrRepositoryNotExists,
      network = (\<lambda>u a. Inl ErrRepositoryNotFound), net_log = [],
      is_ancestor = (\<lambda>a b. False), commit_files = (\<lambda>h f. None),
      object_stores = (\<lambda>p. []), io_fails = (\<lambda>op. False),
      clock = (\<lambda>n. n), time_Format = (\<lambda>t. ''20240101-000000''), ticks = 0, console = []\<rparr>"

definition two_remotes :: cwd_repo where
  "two_remotes =
     \<lparr>tracked_remote = Some ''upstream'', push_default = None,
      cfg_remotes = [(''origin'', [''https://example.com/me/proj.git'']),
                     (''upstream'', [''https://example.com/team/proj.git''])]\<rparr>"

definition checkout_world :: world where
  "checkout_world = fresh_world\<lparr>cwd_git := StatOk Directory, cwd_open := Inr two_remotes\<rparr>"

definition upstream_only :: cwd_repo where
  "upstream_only =
     \<lparr>tracked_remote = None, push_default = None,
      cfg_remotes = [(''upstream'', [''https://example.com/team/proj.git''])]\<rparr>"

definition stray_clone_world :: world where
  "stray_clone_world =
     fresh_world\<lparr>clones := (\<lambda>n. if n = ''test-clone'' then PlainDir else NoDir)\<rparr>"

definition example_remote :: remote_repo where
  "example_remote =
     \<lparr>remote_head = ''main'', remote_history = [''c3'', ''c2'', ''c1''],
      remote_refs = [(''HEAD'', ''c3''), (''refs/heads/main'', ''c3'')]\<rparr>"

text \<open>
  A vault of three repositories with their metadata files and no pristine; the second
  remote asks for credentials whatever is offered.
\<close>

definition vault_world :: world where
  "vault_world =
     fresh_world
       \<lparr>vault_file := Doc \<lparr>Repos =
           [\<lparr>Name = ''alpha'', URL = ''https://example.com/o/alpha.git'', AddedOn = 0\<rparr>,
            \<lparr>Name = ''beta'', URL = ''https://example.com/o/beta.git'', AddedOn = 0\<rparr>,
            \<lparr>Name = ''gamma'', URL = ''https://example.com/o/gamma.git'', AddedOn = 0\<rparr>]\<rparr>,
        meta_dirs :=
           [(''alpha'', Doc (new_metadata ''https://example.com/o/alpha.git'' 0 0)),
            (''beta'', Doc (new_metadata ''https://example.com/o/beta.git'' 0 0)),
            (''gamma'', Doc (new_metadata ''https://example.com/o/gamma.git'' 0 0))],
        network := (\<lambda>u a. if u = ''https://example.com/o/beta.git''
                            then Inl ErrAuthenticationRequired else Inr example_remote)\<rparr>"

definition example_pristine :: repo where
  "example_pristine =
     \<lparr>is_bare = False, mirror = False, shallow = True,
      origin_urls = Some [''https://example.com/o/alpha.git''],
      head = Some (''main'', ''c3''), alternates = None, own_commits = [''c3'']\<rparr>"

definition pristine_world :: world where
  "pristine_world =
     vault_world\<lparr>pristines := (\<lambda>n. if n = ''alpha'' then RepoDir example_pristine else NoDir)\<rparr>"



text \<open>An argument that validates and whose name is one byte that is no valid UTF-8.\<close>

definition odd_url :: string where
  "odd_url = ''https://example.com/'' @ [CHR 0xFF] @ ''.git''"

section \<open>Properties of the vault manager\<close>

lemma repoExists_append: "repoExists (xs @ [e]) n = (repoExists xs n \<or> Name e = n)"
  by (induction xs) auto

lemma find_repo_absent: "\<not> repoExists xs n \<Longrightarrow> find_repo xs n = None"
  by (induction xs) auto

lemma find_repo_append:
  "find_repo (xs @ [e]) n =
     (case find_repo xs n of Some r \<Rightarrow> Some r | None \<Rightarrow> if Name e = n then Some e else None)"
  by (induction xs) auto

lemma HasSuffix_drop:
  assumes "HasSuffix (drop n s) suf"
  shows "HasSuffix s suf"
proof (cases "n \<le> length s")
  case False
  from assms have "length suf \<le> length (drop n s)"
    unfolding HasSuffix_def by (rule conjunct1)
  with False have "suf = []" by simp
  then show ?thesis by (simp add: HasSuffix_def)
next
  case True
  from assms have le: "length suf \<le> length s - n"
    unfolding HasSuffix_def length_drop by (rule conjunct1)
  from assms have d: "drop (length s - n - length suf) (drop n s) = suf"
    unfolding HasSuffix_def length_drop by (rule conjunct2)
  from le True have e: "length s - n - length suf + n = length s - length suf"
    by arith
  from le have le': "length suf \<le> length s" by arith
  have "drop (length s - length suf) s = drop (length s - n - length suf) (drop n s)"
    unfolding drop_drop e ..
  also note d
  finally have "drop (length s - length suf) s = suf" .
  with le' show ?thesis unfolding HasSuffix_def by (rule conjI)
qed

lemma createMetadata_frame:
  "createMetadata name url w = (r, w') \<Longrightarrow>
     vault_file w' = vault_file w \<and> local_stat w' = local_stat w \<and>
     abs_path w' = abs_path w \<and> io_fails w' = io_fails w \<and> pristines w' = pristines w \<and>
     clones w' = clones w \<and> console w' = console w \<and> network w' = network w"
  by (auto simp: createMetadata_def put_meta_def time_Now_def Let_def split: if_splits prod.splits)

lemma validate_frame:
  "local_stat w' = local_stat w \<Longrightarrow> abs_path w' = abs_path w \<Longrightarrow>
   validateURLOrPath w' u = validateURLOrPath w u"
  by (simp add: validateURLOrPath_def validateLocalPath_def split: sum.splits)

lemma coerce_ascii: "\<forall>c\<in>set s. (of_char c :: nat) < 0x80 \<Longrightarrow> coerce 0 s = s"
  by (induction s) simp_all

lemma Add_success:
  assumes "Add u w = (Inr (), w')"
  shows "\<exists>url name v t. validateURLOrPath w u = Inr url \<and> extractRepoName url = Inr name \<and>
           loadVault w = Inr v \<and> \<not> repoExists (Repos v) name \<and>
           vault_file w' =
             Doc (json_Vault (v\<lparr>Repos := Repos v @ [\<lparr>Name = name, URL = url, AddedOn = t\<rparr>]\<rparr>)) \<and>
           local_stat w' = local_stat w \<and> abs_path w' = abs_path w"
  using assms
  apply (simp add: Add_def split: sum.splits if_splits prod.splits)
  apply (auto simp: saveVault_def time_Now_def print_def split: if_splits dest!: createMetadata_frame)
  done

lemma find_repo_json:
  "\<forall>e\<in>set xs. json_coerce (Name e) = Name e \<Longrightarrow>
   find_repo (map json_VaultEntry xs) n = map_option json_VaultEntry (find_repo xs n)"
  by (induction xs) (auto simp: json_VaultEntry_def)

lemma repoExists_find_repo: "repoExists xs n = (find_repo xs n \<noteq> None)"
  by (induction xs) simp_all

text \<open>
  The round trip of \<open>Add\<close> and \<open>Get\<close> for a name and a URL that JSON text keeps as
  they are, on an index whose names were read from JSON text: the name was not in the
  vault before, \<open>Get\<close> reads the entry back, and a further \<open>Add\<close> of that name fails
  with the already-exists error and changes nothing.
\<close>

lemma Add_then_Get_roundtrip_utf8:
  assumes a: "Add u w = (Inr (), w')"
    and v: "loadVault w = Inr v"
    and j: "\<forall>e\<in>set (Repos v). json_coerce (Name e) = Name e"
    and val: "validateURLOrPath w u = Inr url" and nm: "extractRepoName url = Inr name"
    and jn: "json_coerce name = name" and ju: "json_coerce url = url"
  shows "Get w name = Inl (RepositoryNotFoundInVault name) \<and>
     (\<exists>t. Get w' name = Inr \<lparr>Name = name, URL = url, AddedOn = t\<rparr>) \<and>
     (\<forall>u2 url2. validateURLOrPath w' u2 = Inr url2 \<and> extractRepoName url2 = Inr name \<longrightarrow>
         Add u2 w' = (Inl (RepositoryAlreadyExistsInVault name), w'))"
proof -
  from Add_success [OF a] val nm v obtain t where
    fresh: "\<not> repoExists (Repos v) name" and
    vf: "vault_file w' =
           Doc (json_Vault (v\<lparr>Repos := Repos v @ [\<lparr>Name = name, URL = url, AddedOn = t\<rparr>]\<rparr>))"
    by auto
  let ?e = "\<lparr>Name = name, URL = url, AddedOn = t\<rparr>"
  have je: "json_VaultEntry ?e = ?e" using jn ju by (simp add: json_VaultEntry_def)
  have all: "\<forall>e\<in>set (Repos v @ [?e]). json_coerce (Name e) = Name e" using j jn by simp
  have f: "find_repo (Repos (json_Vault (v\<lparr>Repos := Repos v @ [?e]\<rparr>))) name = Some ?e"
    using find_repo_json [OF all, of name] fresh je
    by (simp add: json_Vault_def find_repo_append find_repo_absent)
  have before: "Get w name = Inl (RepositoryNotFoundInVault name)"
    using v fresh by (simp add: Get_def find_repo_absent)
  have after: "Get w' name = Inr ?e"
    using vf f by (simp add: Get_def loadVault_def)
  have again: "Add u2 w' = (Inl (RepositoryAlreadyExistsInVault name), w')"
    if "validateURLOrPath w' u2 = Inr url2 \<and> extractRepoName url2 = Inr name" for u2 url2
    using that vf f by (simp add: Add_def loadVault_def repoExists_find_repo)
  show ?thesis using before after again by blast
qed

text \<open>
  Claim C5 fails for an argument that is not valid UTF-8. \<open>Add\<close> accepts
  \<open>odd_url\<close> and takes the single byte 0xFF as the name, but \<open>saveVault\<close> writes the
  index as JSON text, in which that byte becomes U+FFFD. Read back, the index has no entry
  of the name that was added: \<open>Get\<close> of the name reports it as not found, and a second
  \<open>Add\<close> of the same argument succeeds and leaves two entries of one name.
\<close>

theorem Add_then_Get_not_utf8:
  "validateURLOrPath fresh_world odd_url = Inr odd_url \<and>
   extractRepoName odd_url = Inr [CHR 0xFF] \<and>
   fst (Add odd_url fresh_world) = Inr () \<and>
   Get (snd (Add odd_url fresh_world)) [CHR 0xFF] =
     Inl (RepositoryNotFoundInVault [CHR 0xFF]) \<and>
   fst (Add odd_url (snd (Add odd_url fresh_world))) = Inr () \<and>
   List (snd (Add odd_url (snd (Add odd_url fresh_world)))) =
     Inr [\<lparr>Name = [CHR 0xEF, CHR 0xBF, CHR 0xBD],
           URL = ''https://example.com/'' @ [CHR 0xEF, CHR 0xBF, CHR 0xBD] @ ''.git'',
           AddedOn = 0\<rparr>,
          \<lparr>Name = [CHR 0xEF, CHR 0xBF, CHR 0xBD],
           URL = ''https://example.com/'' @ [CHR 0xEF, CHR 0xBF, CHR 0xBD] @ ''.git'',
           AddedOn = 3\<rparr>]"
  by code_simp

text \<open>
  Claim C9, as stated, fails for local paths: a directory whose \<open>.git\<close> entry is a
  regular file (a linked worktree or a submodule checkout) has no \<open>.git\<close>
  subdirectory, and \<open>Add\<close> accepts it.
\<close>

theorem add_rejects_counterexample:
  "local_stat fresh_world (filepath_Join ''/home/dev/proj'' ''.git'') \<noteq> StatOk Directory \<and>
   fst (Add ''/home/dev/proj'' fresh_world) = Inr ()"
  by (simp add: Add_def fresh_world_def validateURLOrPath_def is_url_def HasPrefix_def
        validateLocalPath_def filepath_Join_def filepath_Base_def
        extractRepoName_def loadVault_def time_Now_def
        saveVault_def createMetadata_def put_meta_def print_def Let_def)

text \<open>
  Claim C9, amended. \<open>Add\<close> rejects every argument with one of the three URL prefixes
  that does not end with \<open>.git\<close>, and every local path for which \<open>os.Stat\<close>
  reports that the path or its \<open>.git\<close> entry does not exist; in both cases it returns
  the validation error with the state unchanged, so no vault entry and no metadata file is
  written.
\<close>

theorem add_rejects_before_writing:
  "(is_url u \<and> \<not> HasSuffix u ''.git'' \<longrightarrow>
      Add u w = (Inl (Wrap ''validation failed'' InvalidGitURLFormat), w)) \<and>
   (u \<noteq> [] \<and> \<not> is_url u \<and> abs_path w u = Inr p \<and>
    (local_stat w p = StatNotExist \<or> local_stat w (filepath_Join p ''.git'') = StatNotExist) \<longrightarrow>
      Add u w = (Inl (Wrap ''validation failed''
                   (if local_stat w p = StatNotExist then PathDoesNotExist p
                    else PathIsNotAGitRepository p)), w))"
proof (intro conjI impI)
  assume h: "is_url u \<and> \<not> HasSuffix u ''.git''"
  have no_end: "\<not> dotstar_git_end (drop n u)" for n
  proof
    assume "dotstar_git_end (drop n u)"
    then have "HasSuffix (drop n u) ''.git''" by (simp add: dotstar_git_end_def)
    then have "HasSuffix u ''.git''" by (rule HasSuffix_drop)
    with h show False by simp
  qed
  have nomatch: "\<not> MatchString_urlPattern u"
    by (simp add: MatchString_urlPattern_def no_end)
  have "\<not> is_url []" by (simp add: is_url_def HasPrefix_def)
  with h have ne: "u \<noteq> []" by (cases u) simp_all
  have "validateURLOrPath w u = Inl InvalidGitURLFormat"
    using h ne nomatch by (simp add: validateURLOrPath_def validateURL_def)
  then show "Add u w = (Inl (Wrap ''validation failed'' InvalidGitURLFormat), w)"
    by (simp add: Add_def)
next
  assume h: "u \<noteq> [] \<and> \<not> is_url u \<and> abs_path w u = Inr p \<and>
    (local_stat w p = StatNotExist \<or> local_stat w (filepath_Join p ''.git'') = StatNotExist)"
  have "validateURLOrPath w u =
          Inl (if local_stat w p = StatNotExist then PathDoesNotExist p
               else PathIsNotAGitRepository p)"
    using h by (cases "local_stat w p = StatNotExist")
      (simp_all add: validateURLOrPath_def validateLocalPath_def)
  then show "Add u w = (Inl (Wrap ''validation failed''
                   (if local_stat w p = StatNotExist then PathDoesNotExist p
                    else PathIsNotAGitRepository p)), w)"
    by (simp add: Add_def)
qed

theorem add_rejects_before_writing_witness:
  "(is_url ''https://github.com/user/repo'' \<and> \<not> HasSuffix ''https://github.com/user/repo'' ''.git'' \<and>
      Add ''https://github.com/user/repo'' fresh_world =
        (Inl (Wrap ''validation failed'' InvalidGitURLFormat), fresh_world)) \<and>
   (''/tmp/plain'' \<noteq> [] \<and> \<not> is_url ''/tmp/plain'' \<and>
    abs_path fresh_world ''/tmp/plain'' = Inr ''/tmp/plain'' \<and>
    local_stat fresh_world ''/tmp/plain'' = StatNotExist \<and>
      Add ''/tmp/plain'' fresh_world =
        (Inl (Wrap ''validation failed'' (PathDoesNotExist ''/tmp/plain'')), fresh_world))"
proof -
  have a: "is_url ''https://github.com/user/repo'' \<and>
           \<not> HasSuffix ''https://github.com/user/repo'' ''.git''"
    by (simp add: is_url_def HasPrefix_def HasSuffix_def)
  have b: "''/tmp/plain'' \<noteq> [] \<and> \<not> is_url ''/tmp/plain'' \<and>
    abs_path fresh_world ''/tmp/plain'' = Inr ''/tmp/plain'' \<and>
    local_stat fresh_world ''/tmp/plain'' = StatNotExist"
    by (simp add: is_url_def HasPrefix_def fresh_world_def)
  show ?thesis
    using a b add_rejects_before_writing [of "''https://github.com/user/repo''" fresh_world "''/tmp/plain''"]
      add_rejects_before_writing [of "''/tmp/plain''" fresh_world "''/tmp/plain''"]
    by simp
qed

text \<open>
  Claim C10, as stated, fails: the pristine manager reads \<open>vault.json\<close> with
  \<open>os.ReadFile\<close> and takes a missing file as an error, so \<open>Init\<close>, \<open>InitAll\<close>
  and \<open>SyncAll\<close> fail on a vault whose index does not exist yet.
\<close>

theorem missing_vault_file_counterexample:
  "vault_file fresh_world = Absent \<and>
   loadAllReposFromVault fresh_world = Inl (Wrap ''failed to read vault file'' (OSError ENOENT)) \<and>
   loadRepoFromVault fresh_world ''repo1'' =
     Inl (Wrap ''failed to read vault file'' (OSError ENOENT)) \<and>
   Init ''repo1'' fresh_world =
     (Inl (Wrap ''failed to load repository from vault''
            (Wrap ''failed to read vault file'' (OSError ENOENT))), fresh_world) \<and>
   InitAll fresh_world =
     (Inl (Wrap ''failed to load repositories from vault''
            (Wrap ''failed to read vault file'' (OSError ENOENT))), fresh_world) \<and>
   SyncAll fresh_world =
     (Inl (Wrap ''failed to load repositories from vault''
            (Wrap ''failed to read vault file'' (OSError ENOENT))), fresh_world)"
  by (simp add: fresh_world_def loadAllReposFromVault_def loadRepoFromVault_def
        read_vault_file_def Init_def InitAll_def SyncAll_def)

text \<open>
  Claim C10, amended. When \<open>vault.json\<close> does not exist, the reads of the vault
  manager take the vault as empty: \<open>List\<close> returns the empty list without an error,
  \<open>Get\<close> fails with the not-found error for every name, and \<open>Add\<close> of an argument
  that validates and yields a name succeeds when the index and the metadata can be
  written, leaving an index with that one entry. The reads of the pristine manager
  (\<open>loadRepoFromVault\<close>, \<open>loadAllReposFromVault\<close>) fail with the error of the missing
  file, and so do \<open>Init\<close>, \<open>InitAll\<close> and \<open>SyncAll\<close>, which change nothing.
\<close>

theorem missing_vault_file_is_empty_vault:
  assumes "vault_file w = Absent"
  shows "List w = Inr [] \<and>
         (\<forall>name. Get w name = Inl (RepositoryNotFoundInVault name)) \<and>
         (validateURLOrPath w u = Inr url \<and> extractRepoName url = Inr name \<and>
          \<not> io_fails w WriteVaultFile \<and> \<not> io_fails w (MkdirMetadataDir name) \<and>
          \<not> io_fails w (WriteMetadataFile name) \<longrightarrow>
            fst (Add u w) = Inr () \<and>
            vault_file (snd (Add u w)) =
              Doc \<lparr>Repos = [\<lparr>Name = json_coerce name, URL = json_coerce url,
                              AddedOn = clock w (ticks w)\<rparr>]\<rparr>) \<and>
         loadAllReposFromVault w = Inl (Wrap ''failed to read vault file'' (OSError ENOENT)) \<and>
         (\<forall>n. loadRepoFromVault w n = Inl (Wrap ''failed to read vault file'' (OSError ENOENT)) \<and>
              Init n w =
                (Inl (Wrap ''failed to load repository from vault''
                       (Wrap ''failed to read vault file'' (OSError ENOENT))), w)) \<and>
         InitAll w =
           (Inl (Wrap ''failed to load repositories from vault''
                  (Wrap ''failed to read vault file'' (OSError ENOENT))), w) \<and>
         SyncAll w =
           (Inl (Wrap ''failed to load repositories from vault''
                  (Wrap ''failed to read vault file'' (OSError ENOENT))), w)"
proof -
  have l: "List w = Inr []" using assms by (simp add: List_def loadVault_def)
  have g: "\<forall>name. Get w name = Inl (RepositoryNotFoundInVault name)"
    using assms by (simp add: Get_def loadVault_def)
  have a: "validateURLOrPath w u = Inr url \<and> extractRepoName url = Inr name \<and>
          \<not> io_fails w WriteVaultFile \<and> \<not> io_fails w (MkdirMetadataDir name) \<and>
          \<not> io_fails w (WriteMetadataFile name) \<longrightarrow>
            fst (Add u w) = Inr () \<and>
            vault_file (snd (Add u w)) =
              Doc \<lparr>Repos = [\<lparr>Name = json_coerce name, URL = json_coerce url,
                              AddedOn = clock w (ticks w)\<rparr>]\<rparr>"
    using assms
    by (simp add: Add_def loadVault_def time_Now_def saveVault_def createMetadata_def
        put_meta_def print_def Let_def json_Vault_def json_VaultEntry_def)
  have r: "read_vault_file w = Inl (Wrap ''failed to read vault file'' (OSError ENOENT))"
    using assms by (simp add: read_vault_file_def)
  have p: "loadAllReposFromVault w = Inl (Wrap ''failed to read vault file'' (OSError ENOENT))"
    using r by (simp add: loadAllReposFromVault_def)
  have q: "\<forall>n. loadRepoFromVault w n = Inl (Wrap ''failed to read vault file'' (OSError ENOENT)) \<and>
              Init n w =
                (Inl (Wrap ''failed to load repository from vault''
                       (Wrap ''failed to read vault file'' (OSError ENOENT))), w)"
    using r by (simp add: loadRepoFromVault_def Init_def)
  have i: "InitAll w =
           (Inl (Wrap ''failed to load repositories from vault''
                  (Wrap ''failed to read vault file'' (OSError ENOENT))), w)"
    using p by (simp add: InitAll_def)
  have s: "SyncAll w =
           (Inl (Wrap ''failed to load repositories from vault''
                  (Wrap ''failed to read vault file'' (OSError ENOENT))), w)"
    using p by (simp add: SyncAll_def)
  show ?thesis
    by (rule conjI [OF l conjI [OF g conjI [OF a conjI [OF p conjI [OF q conjI [OF i s]]]]]])
qed

theorem missing_vault_file_is_empty_vault_witness:
  "vault_file fresh_world = Absent \<and> List fresh_world = Inr [] \<and>
   Get fresh_world ''repo1'' = Inl (RepositoryNotFoundInVault ''repo1'') \<and>
   fst (Add ''https://github.com/user/repo1.git'' fresh_world) = Inr () \<and>
   vault_file (snd (Add ''https://github.com/user/repo1.git'' fresh_world)) =
     Doc \<lparr>Repos = [\<lparr>Name = ''repo1'', URL = ''https://github.com/user/repo1.git'', AddedOn = 0\<rparr>]\<rparr> \<and>
   Init ''repo1'' fresh_world =
     (Inl (Wrap ''failed to load repository from vault''
            (Wrap ''failed to read vault file'' (OSError ENOENT))), fresh_world) \<and>
   InitAll fresh_world =
     (Inl (Wrap ''failed to load repositories from vault''
            (Wrap ''failed to read vault file'' (OSError ENOENT))), fresh_world)"
proof -
  have h: "vault_file fresh_world = Absent" by (simp add: fresh_world_def)
  have v: "validateURLOrPath fresh_world ''https://github.com/user/repo1.git'' =
             Inr ''https://github.com/user/repo1.git''"
    by (simp add: validateURLOrPath_def is_url_def HasPrefix_def validateURL_def
        MatchString_urlPattern_def dotstar_git_end_def HasSuffix_def)
  have n: "extractRepoName ''https://github.com/user/repo1.git'' = Inr ''repo1''"
    by (simp add: extractRepoName_def is_url_def extractNameFromURL_def TrimSuffix_def
        HasPrefix_def HasSuffix_def Let_def)
  have io: "\<not> io_fails fresh_world WriteVaultFile \<and> \<not> io_fails fresh_world (MkdirMetadataDir ''repo1'') \<and>
          \<not> io_fails fresh_world (WriteMetadataFile ''repo1'')"
    by (simp add: fresh_world_def)
  have c: "clock fresh_world (ticks fresh_world) = 0" by (simp add: fresh_world_def)
  have j: "json_coerce ''repo1'' = ''repo1'' \<and>
           json_coerce ''https://github.com/user/repo1.git'' = ''https://github.com/user/repo1.git''"
    by (simp add: json_coerce_def coerce_ascii)
  show ?thesis
    using h v n io c j
      missing_vault_file_is_empty_vault [OF h, of "''https://github.com/user/repo1.git''"
        "''https://github.com/user/repo1.git''" "''repo1''"]
    by simp
qed

text \<open>
  Claim C6, as stated, fails: in a checkout whose current branch tracks \<open>upstream\<close>
  and which also has a remote \<open>origin\<close>, the specification's order selects
  \<open>upstream\<close> and retains both URLs, while \<open>AddFromCurrentDir\<close> takes the URL of
  \<open>origin\<close> and stores that one URL only.
\<close>

theorem default_remote_counterexample:
  "select_default_remote_spec two_remotes = Some ''upstream'' \<and>
   retained_urls_spec two_remotes =
     [''https://example.com/team/proj.git'', ''https://example.com/me/proj.git''] \<and>
   getOriginRemote checkout_world = Inr ''https://example.com/me/proj.git'' \<and>
   fst (AddFromCurrentDir checkout_world) = Inr () \<and>
   vault_file (snd (AddFromCurrentDir checkout_world)) =
     Doc \<lparr>Repos = [\<lparr>Name = ''proj'', URL = ''https://example.com/me/proj.git'', AddedOn = 0\<rparr>]\<rparr>"
  by (simp add: select_default_remote_spec_def retained_urls_spec_def two_remotes_def
        checkout_world_def getOriginRemote_def AddFromCurrentDir_def
        Add_def fresh_world_def validateURLOrPath_def is_url_def HasPrefix_def
        validateURL_def MatchString_urlPattern_def dotstar_git_end_def HasSuffix_def
        extractRepoName_def extractNameFromURL_def TrimSuffix_def loadVault_def time_Now_def
        saveVault_def createMetadata_def put_meta_def print_def Let_def filepath_Base_def
        json_Vault_def json_VaultEntry_def json_coerce_def coerce_ascii)

text \<open>
  Claim C6, amended. \<open>AddFromCurrentDir\<close> looks at the remote named \<open>origin\<close>
  only: when it succeeds, the index has gained exactly one entry, whose single URL is the
  validated first URL of \<open>origin\<close> (written as JSON text); when the directory has no
  \<open>.git\<close> entry, or the repository has no remote \<open>origin\<close>, it fails and changes
  nothing, whatever other remotes, tracking branch or push default there are.
\<close>

theorem AddFromCurrentDir_origin_only:
  "(AddFromCurrentDir w = (Inr (), w') \<longrightarrow>
      (\<exists>r u us url v name t.
           cwd_open w = Inr r \<and> map_of (cfg_remotes r) ''origin'' = Some (u # us) \<and>
           validateURLOrPath w u = Inr url \<and> loadVault w = Inr v \<and>
           vault_file w' =
             Doc (json_Vault
               (v\<lparr>Repos := Repos v @ [\<lparr>Name = name, URL = url, AddedOn = t\<rparr>]\<rparr>)))) \<and>
   (cwd_git w = StatNotExist \<longrightarrow>
      AddFromCurrentDir w = (Inl CurrentDirNotAGitRepository, w)) \<and>
   (cwd_git w \<noteq> StatNotExist \<and> cwd_open w = Inr r0 \<and>
    map_of (cfg_remotes r0) ''origin'' = None \<longrightarrow>
      AddFromCurrentDir w =
        (Inl (Wrap ''failed to get origin remote''
               (Wrap ''no origin remote found'' (GitError ErrRemoteNotFound))), w))"
proof -
  have ok: "\<exists>r u us url v name t.
           cwd_open w = Inr r \<and> map_of (cfg_remotes r) ''origin'' = Some (u # us) \<and>
           validateURLOrPath w u = Inr url \<and> loadVault w = Inr v \<and>
           vault_file w' =
             Doc (json_Vault
               (v\<lparr>Repos := Repos v @ [\<lparr>Name = name, URL = url, AddedOn = t\<rparr>]\<rparr>))"
    if h: "AddFromCurrentDir w = (Inr (), w')"
  proof -
    from h obtain r u us where
      o: "cwd_open w = Inr r" and m: "map_of (cfg_remotes r) ''origin'' = Some (u # us)" and
      a: "Add u w = (Inr (), w')"
      by (auto simp: AddFromCurrentDir_def getOriginRemote_def
          split: if_splits sum.splits option.splits list.splits)
    from Add_success [OF a] obtain url name v t where
      "validateURLOrPath w u = Inr url" "loadVault w = Inr v"
      "vault_file w' =
         Doc (json_Vault (v\<lparr>Repos := Repos v @ [\<lparr>Name = name, URL = url, AddedOn = t\<rparr>]\<rparr>))"
      by blast
    then show ?thesis using o m by blast
  qed
  have nogit: "AddFromCurrentDir w = (Inl CurrentDirNotAGitRepository, w)"
    if "cwd_git w = StatNotExist"
    using that by (simp add: AddFromCurrentDir_def)
  have none: "AddFromCurrentDir w =
        (Inl (Wrap ''failed to get origin remote''
               (Wrap ''no origin remote found'' (GitError ErrRemoteNotFound))), w)"
    if "cwd_git w \<noteq> StatNotExist \<and> cwd_open w = Inr r0 \<and>
        map_of (cfg_remotes r0) ''origin'' = None"
    using that by (simp add: AddFromCurrentDir_def getOriginRemote_def)
  show ?thesis using ok nogit none by blast
qed

theorem AddFromCurrentDir_origin_only_witness:
  "fst (AddFromCurrentDir checkout_world) = Inr () \<and>
   (\<exists>r u us url v name t.
      cwd_open checkout_world = Inr r \<and> map_of (cfg_remotes r) ''origin'' = Some (u # us) \<and>
      validateURLOrPath checkout_world u = Inr url \<and> loadVault checkout_world = Inr v \<and>
      vault_file (snd (AddFromCurrentDir checkout_world)) =
        Doc (json_Vault (v\<lparr>Repos := Repos v @ [\<lparr>Name = name, URL = url, AddedOn = t\<rparr>]\<rparr>))) \<and>
   cwd_git fresh_world = StatNotExist \<and>
   AddFromCurrentDir fresh_world = (Inl CurrentDirNotAGitRepository, fresh_world) \<and>
   cwd_git (checkout_world\<lparr>cwd_open := Inr upstream_only\<rparr>) \<noteq> StatNotExist \<and>
   map_of (cfg_remotes upstream_only) ''origin'' = None \<and>
   AddFromCurrentDir (checkout_world\<lparr>cwd_open := Inr upstream_only\<rparr>) =
     (Inl (Wrap ''failed to get origin remote''
            (Wrap ''no origin remote found'' (GitError ErrRemoteNotFound))),
      checkout_world\<lparr>cwd_open := Inr upstream_only\<rparr>)"
proof -
  have ok: "fst (AddFromCurrentDir checkout_world) = Inr ()"
    by (simp add: two_remotes_def
        checkout_world_def getOriginRemote_def AddFromCurrentDir_def
        Add_def fresh_world_def validateURLOrPath_def is_url_def HasPrefix_def
        validateURL_def MatchString_urlPattern_def dotstar_git_end_def HasSuffix_def
        extractRepoName_def extractNameFromURL_def TrimSuffix_def loadVault_def time_Now_def
        saveVault_def createMetadata_def put_meta_def print_def Let_def filepath_Base_def)
  then have h: "AddFromCurrentDir checkout_world = (Inr (), snd (AddFromCurrentDir checkout_world))"
    by (metis prod.collapse)
  have g: "cwd_git fresh_world = StatNotExist" by (simp add: fresh_world_def)
  have n1: "cwd_git (checkout_world\<lparr>cwd_open := Inr upstream_only\<rparr>) \<noteq> StatNotExist"
    by (simp add: checkout_world_def)
  have n2: "cwd_open (checkout_world\<lparr>cwd_open := Inr upstream_only\<rparr>) = Inr upstream_only"
    by simp
  have n3: "map_of (cfg_remotes upstream_only) ''origin'' = None"
    by (simp add: upstream_only_def)
  note thm1 = AddFromCurrentDir_origin_only [of checkout_world
        "snd (AddFromCurrentDir checkout_world)" upstream_only, THEN conjunct1, THEN mp, OF h]
  note thm2 = AddFromCurrentDir_origin_only [of fresh_world fresh_world upstream_only,
        THEN conjunct2, THEN conjunct1, THEN mp, OF g]
  note thm3 = AddFromCurrentDir_origin_only [of "checkout_world\<lparr>cwd_open := Inr upstream_only\<rparr>"
        checkout_world upstream_only, THEN conjunct2, THEN conjunct2, THEN mp,
        OF conjI [OF n1 conjI [OF n2 n3]]]
  show ?thesis
    by (rule conjI [OF ok conjI [OF thm1 conjI [OF g conjI [OF thm2
          conjI [OF n1 conjI [OF n3 thm3]]]]]])
qed

section \<open>Properties of paths\<close>

lemma clean_elems_append:
  "clean_elems (xs @ ys) acc = clean_elems ys (rev (clean_elems xs acc))"
  by (induction xs arbitrary: acc) simp_all

lemma Split_plain: "sep \<notin> set s \<Longrightarrow> Split s sep = [s]"
  by (induction s) (auto split: list.splits)

lemma Join_elems_plain:
  assumes "plain_name k"
  shows "Join_elems root k = path_elems root @ [k]"
proof -
  from assms have s: "Split k (CHR ''/'') = [k]" by (simp add: plain_name_def Split_plain)
  from assms have "k \<noteq> [] \<and> k \<noteq> ''.'' \<and> k \<noteq> ''..''" by (simp add: plain_name_def)
  then have "clean_elems [k] acc = rev acc @ [k]" for acc by simp
  then show ?thesis by (simp add: Join_elems_def path_elems_def clean_elems_append s)
qed

lemma under_refl: "under t t"
  by (simp add: under_def)

lemma under_snoc:
  assumes "under (p @ [x]) (q @ [y])"
  shows "under p q"
proof -
  from assms have e: "take (Suc (length p)) (q @ [y]) = p @ [x]" by (simp add: under_def)
  then have "length (take (Suc (length p)) (q @ [y])) = Suc (length p)" by simp
  then have le: "length p \<le> length q" by simp
  have "take (length p) (take (Suc (length p)) (q @ [y])) = take (length p) (q @ [y])"
    by (simp add: min_def)
  with e have "take (length p) (q @ [y]) = p" by simp
  with le show ?thesis by (simp add: under_def)
qed

lemma under_snoc_same:
  assumes "under (p @ [x]) (p @ [y])"
  shows "x = y"
  using assms by (simp add: under_def)

lemma remove_below_plain:
  assumes n: "plain_name n" and k: "plain_name k"
    and a: "\<not> under (path_elems r1) (path_elems r2)"
    and b: "\<not> under (path_elems r2) (path_elems r1)"
  shows "remove_below (Join_elems r1 n) r2 dirs k = dirs k"
  using a b under_snoc [of "path_elems r1" n "path_elems r2" k]
    under_snoc [of "path_elems r2" k "path_elems r1" n]
  by (auto simp: remove_below_def Join_elems_plain [OF n] Join_elems_plain [OF k])

lemma remove_below_same_root:
  assumes n: "plain_name n" and k: "plain_name k"
  shows "remove_below (Join_elems r n) r dirs k = (if k = n then NoDir else dirs k)"
  using under_snoc_same [of "path_elems r" n k] under_snoc_same [of "path_elems r" k n]
  by (auto simp: remove_below_def Join_elems_plain [OF n] Join_elems_plain [OF k] under_refl)

lemma RemoveAll_tree_pristine_frame:
  assumes n: "plain_name n"
    and pv: "\<not> under (path_elems (pristinesPath (roots w))) (path_elems (vaultPath (roots w)))"
    and vp: "\<not> under (path_elems (vaultPath (roots w))) (path_elems (pristinesPath (roots w)))"
    and ks: "\<forall>k\<in>fst ` set (meta_dirs w). plain_name k"
  shows "vault_file (RemoveAll_tree (Join_elems (pristinesPath (roots w)) n) w) = vault_file w \<and>
         meta_dirs (RemoveAll_tree (Join_elems (pristinesPath (roots w)) n) w) = meta_dirs w"
proof -
  let ?P = "path_elems (pristinesPath (roots w))"
  let ?V = "path_elems (vaultPath (roots w))"
  have vj: "plain_name ''vault.json''" by (simp add: plain_name_def)
  have 1: "\<not> under (?P @ [n]) (?V @ [x])" for x
    using under_snoc [of ?P n ?V x] pv by blast
  have 2: "?P \<noteq> ?V @ [k]" for k
  proof
    assume "?P = ?V @ [k]"
    then have "under ?V ?P" by (simp add: under_def)
    with vp show False by simp
  qed
  have pk: "plain_name k" if "(k, f) \<in> set (meta_dirs w)" for k f
    using that ks by force
  have f: "filter (\<lambda>(k, f). \<not> under (?P @ [n]) (Join_elems (vaultPath (roots w)) k)) (meta_dirs w)
             = meta_dirs w"
    by (rule filter_True) (auto simp: Join_elems_plain pk 1)
  have m: "map (\<lambda>(k, f). (k, if ?P @ [n] = Join_elems (vaultPath (roots w)) k @ [''metadata.json'']
                            then Absent else f)) (meta_dirs w) = meta_dirs w"
    by (rule map_idI) (auto simp: Join_elems_plain pk 2)
  show ?thesis
    using 1 [of "''vault.json''"] f m
    by (simp add: RemoveAll_tree_def Join_elems_plain [OF n] Join_elems_plain [OF vj])
qed

section \<open>Properties of the clone manager\<close>

lemma removeClone_loop_frame:
  "removeClone_loop es c w = (r, w') \<Longrightarrow>
     clones w' = clones w \<and> console w' = console w \<and> pristines w' = pristines w \<and>
     vault_file w' = vault_file w \<and> net_log w' = net_log w"
proof (induction es)
  case Nil
  then show ?case by simp
next
  case (Cons a es)
  obtain dir f where a: "a = (dir, f)" by (cases a)
  show ?case
  proof (cases f)
    case (Doc metadata)
    show ?thesis
    proof (cases "length (filter (\<lambda>x. clone_Name x \<noteq> c) (Clones metadata)) \<noteq> length (Clones metadata)")
      case True
      with Cons.prems a Doc show ?thesis
        by (auto simp: Let_def time_Now_def saveMetadata_def put_meta_def split: if_splits)
    next
      case False
      with Cons a Doc show ?thesis by (simp add: Let_def)
    qed
  qed (use Cons a in simp_all)
qed

lemma RemoveAll_tree_frame:
  "console (RemoveAll_tree t w) = console w \<and> io_fails (RemoveAll_tree t w) = io_fails w \<and>
   net_log (RemoveAll_tree t w) = net_log w \<and> roots (RemoveAll_tree t w) = roots w"
  by (simp add: RemoveAll_tree_def)

lemma RemoveAll_clone_gone:
  "\<not> io_fails w (RemoveClone c) \<Longrightarrow> clones (snd (RemoveAll_clone c w)) c = NoDir"
  by (simp add: RemoveAll_clone_def RemoveAll_tree_def remove_below_def under_refl)

text \<open>
  Claim C7. When the target names an existing clone directory, its removal succeeds and
  the update of the metadata then fails with an error \<open>e\<close>, \<open>Destroy\<close> still
  returns success: the failure appears only as a warning on the console, before the
  message that the clone was destroyed, and the clone directory is gone.
\<close>

theorem destroy_clone_metadata_failure_is_warning:
  assumes "stat_ok (stat_dir (clones w c))"
    and "\<not> io_fails w (RemoveClone c)"
    and "removeCloneFromMetadata c (snd (RemoveAll_clone c w)) = (Inl e, w2)"
  shows "fst (Destroy c w) = Inr () \<and>
         console (snd (Destroy c w)) =
           console w @ [Warning ''failed to update metadata'' e, Info ''Destroyed clone'' c] \<and>
         clones (snd (Destroy c w)) c = NoDir"
proof -
  define w1 where "w1 = snd (RemoveAll_clone c w)"
  have rm: "RemoveAll_clone c w = (Inr (), w1)"
    using assms(2) by (simp add: w1_def RemoveAll_clone_def)
  have g: "clones w1 c = NoDir" unfolding w1_def by (rule RemoveAll_clone_gone [OF assms(2)])
  have c1: "console w1 = console w"
    using assms(2) RemoveAll_tree_frame by (simp add: w1_def RemoveAll_clone_def)
  have m: "removeCloneFromMetadata c w1 = (Inl e, w2)" using assms(3) by (simp add: w1_def)
  have fr: "clones w2 = clones w1 \<and> console w2 = console w1"
  proof (cases "io_fails w1 ReadDirVault")
    case True
    with m show ?thesis by (auto simp: removeCloneFromMetadata_def)
  next
    case False
    with m have "removeClone_loop (meta_dirs w1) c w1 = (Inl e, w2)"
      by (simp add: removeCloneFromMetadata_def)
    from removeClone_loop_frame [OF this] show ?thesis by simp
  qed
  have "Destroy c w = destroyClone c w" using assms(1) by (simp add: Destroy_def)
  moreover have "destroyClone c w =
      (Inr (), print (Info ''Destroyed clone'' c) (print (Warning ''failed to update metadata'' e) w2))"
    using rm m by (simp add: destroyClone_def)
  ultimately show ?thesis using fr g c1 by (simp add: print_def)
qed

theorem destroy_clone_metadata_failure_is_warning_witness:
  "stat_ok (stat_dir (clones stray_clone_world ''test-clone'')) \<and>
   \<not> io_fails stray_clone_world (RemoveClone ''test-clone'') \<and>
   fst (removeCloneFromMetadata ''test-clone''
         (snd (RemoveAll_clone ''test-clone'' stray_clone_world))) =
     Inl (CloneNotFoundInAnyMetadata ''test-clone'') \<and>
   fst (Destroy ''test-clone'' stray_clone_world) = Inr () \<and>
   console (snd (Destroy ''test-clone'' stray_clone_world)) =
     [Warning ''failed to update metadata'' (CloneNotFoundInAnyMetadata ''test-clone''),
      Info ''Destroyed clone'' ''test-clone''] \<and>
   clones (snd (Destroy ''test-clone'' stray_clone_world)) ''test-clone'' = NoDir"
proof -
  have a: "stat_ok (stat_dir (clones stray_clone_world ''test-clone''))"
    by (simp add: stray_clone_world_def)
  have b: "\<not> io_fails stray_clone_world (RemoveClone ''test-clone'')"
    by (simp add: stray_clone_world_def fresh_world_def)
  have f: "fst (removeCloneFromMetadata ''test-clone''
         (snd (RemoveAll_clone ''test-clone'' stray_clone_world))) =
     Inl (CloneNotFoundInAnyMetadata ''test-clone'')"
    by (simp add: removeCloneFromMetadata_def RemoveAll_clone_def RemoveAll_tree_def
        stray_clone_world_def fresh_world_def)
  then have c: "removeCloneFromMetadata ''test-clone''
         (snd (RemoveAll_clone ''test-clone'' stray_clone_world)) =
     (Inl (CloneNotFoundInAnyMetadata ''test-clone''),
      snd (removeCloneFromMetadata ''test-clone''
         (snd (RemoveAll_clone ''test-clone'' stray_clone_world))))"
    by (metis prod.collapse)
  have d: "console stray_clone_world = []"
    by (simp add: stray_clone_world_def fresh_world_def)
  note t = destroy_clone_metadata_failure_is_warning [OF a b c]
  have t2: "console (snd (Destroy ''test-clone'' stray_clone_world)) =
     [Warning ''failed to update metadata'' (CloneNotFoundInAnyMetadata ''test-clone''),
      Info ''Destroyed clone'' ''test-clone'']"
    using t [THEN conjunct2, THEN conjunct1] unfolding d by simp
  show ?thesis
    by (rule conjI [OF a conjI [OF b conjI [OF f conjI [OF t [THEN conjunct1]
          conjI [OF t2 t [THEN conjunct2, THEN conjunct2]]]]]])
qed

section \<open>Properties of Clone\<close>










section \<open>Properties of the pristine manager\<close>

lemma map_of_replace:
  "n \<in> fst ` set xs \<Longrightarrow>
   map_of (map (\<lambda>(k, v). if k = n then (k, f) else (k, v)) xs) n = Some f"
  by (induction xs) auto

lemma map_of_insort: "map_of (insort_key fst (n, f) xs) n = Some f"
  by (induction xs) auto

lemma get_meta_put_meta: "get_meta (put_meta n f w) n = f"
  by (simp add: get_meta_def put_meta_def map_of_replace map_of_insort)

lemma put_meta_frame:
  "pristines (put_meta n f w) = pristines w \<and> clones (put_meta n f w) = clones w \<and>
   vault_file (put_meta n f w) = vault_file w \<and> net_log (put_meta n f w) = net_log w \<and>
   console (put_meta n f w) = console w \<and> io_fails (put_meta n f w) = io_fails w \<and>
   network (put_meta n f w) = network w"
  by (simp add: put_meta_def)

lemma updateMetadata_ok:
  assumes "get_meta w n = Doc md" and "\<not> io_fails w (WriteMetadataFile n)"
  shows "updateMetadata n info w =
           (Inr (), put_meta n (Doc (json_RepoMetadata (md\<lparr>LastUpdated := clock w (ticks w),
                DefaultBranch := info_DefaultBranch info,
                CurrentBranchHash := info_CurrentBranchHash info,
                Readme := info_Readme info,
                LastSync := \<lparr>Timestamp = clock w (Suc (ticks w)), Type = ''manual''\<rparr>\<rparr>)))
              (w\<lparr>ticks := Suc (Suc (ticks w))\<rparr>))"
  using assms by (simp add: updateMetadata_def time_Now_def Let_def)

lemma updateMetadata_frame:
  "updateMetadata n info w = (r, w2) \<Longrightarrow>
     pristines w2 = pristines w \<and> vault_file w2 = vault_file w \<and> net_log w2 = net_log w"
  by (auto simp: updateMetadata_def time_Now_def put_meta_def Let_def
      split: json_file.splits if_splits)

lemma updateMetadata_success:
  assumes "updateMetadata n info w = (Inr (), w2)"
  shows "\<exists>md. get_meta w2 n = Doc md \<and>
           DefaultBranch md = json_coerce (info_DefaultBranch info) \<and>
           CurrentBranchHash md = json_coerce (info_CurrentBranchHash info)"
proof -
  from assms obtain md0 where g: "get_meta w n = Doc md0"
    by (cases "get_meta w n") (simp_all add: updateMetadata_def)
  from assms g have wr: "\<not> io_fails w (WriteMetadataFile n)"
    by (auto simp: updateMetadata_def time_Now_def Let_def split: if_splits)
  define md where "md = json_RepoMetadata (md0\<lparr>LastUpdated := clock w (ticks w),
                DefaultBranch := info_DefaultBranch info,
                CurrentBranchHash := info_CurrentBranchHash info,
                Readme := info_Readme info,
                LastSync := \<lparr>Timestamp = clock w (Suc (ticks w)), Type = ''manual''\<rparr>\<rparr>)"
  from updateMetadata_ok [OF g wr, of info] assms
  have w2: "w2 = put_meta n (Doc md) (w\<lparr>ticks := Suc (Suc (ticks w))\<rparr>)"
    by (simp add: md_def)
  have a: "get_meta w2 n = Doc md" unfolding w2 by (rule get_meta_put_meta)
  have b: "DefaultBranch md = json_coerce (info_DefaultBranch info) \<and>
           CurrentBranchHash md = json_coerce (info_CurrentBranchHash info)"
    by (simp add: md_def json_RepoMetadata_def)
  from a b show ?thesis by blast
qed

lemma cloneAsReference_ok:
  assumes "pristines w n = NoDir" and "\<not> io_fails w (MkdirPristine n)"
    and "network w url None = Inr rr" and "remote_history rr = tip # older"
  shows "cloneAsReference url n w =
           (Inr (), w\<lparr>pristines := (pristines w)(n := RepoDir
               \<lparr>is_bare = False, mirror = False, shallow = True, origin_urls = Some [url],
                head = Some (remote_head rr, tip), alternates = None, own_commits = [tip]\<rparr>),
              net_log := net_log w @ [(url, None)]\<rparr>)"
  using assms
  by (simp add: cloneAsReference_def MkdirAll_pristine_def cloneAsReference_options_def
      PlainClone_def request_def resolve_ref_def Let_def)

lemma cloneAsReference_success:
  assumes "cloneAsReference url n w = (Inr (), w1)"
  shows "\<exists>b h. pristines w1 n = RepoDir
               \<lparr>is_bare = False, mirror = False, shallow = True, origin_urls = Some [url],
                head = Some (b, h), alternates = None, own_commits = [h]\<rparr> \<and>
         meta_dirs w1 = meta_dirs w \<and> vault_file w1 = vault_file w"
  using assms
  by (auto simp: cloneAsReference_def MkdirAll_pristine_def cloneAsReference_options_def
      PlainClone_def request_def resolve_ref_def Let_def
      split: if_splits sum.splits prod.splits dir_state.splits option.splits list.splits)

lemma extractRepoInfo_success:
  assumes "extractRepoInfo w (RepoDir r) = Inr info"
  shows "head r = Some (info_DefaultBranch info, info_CurrentBranchHash info)"
  using assms
  by (auto simp: extractRepoInfo_def PlainOpen_def split: option.splits if_splits)

lemma Init_after_clone:
  assumes v: "loadRepoFromVault w n = Inr e" and p: "\<not> stat_ok (stat_dir (pristines w n))"
    and c: "cloneAsReference (URL e) n w = (Inr (), w1)" and i: "Init n w = (res, w')"
  shows "\<exists>b h. pristines w' n = RepoDir
               \<lparr>is_bare = False, mirror = False, shallow = True, origin_urls = Some [URL e],
                head = Some (b, h), alternates = None, own_commits = [h]\<rparr> \<and>
           (res = Inr () \<longrightarrow>
              (\<exists>md. get_meta w' n = Doc md \<and> DefaultBranch md = json_coerce b \<and>
                    CurrentBranchHash md = json_coerce h))"
proof -
  from cloneAsReference_success [OF c] obtain b h where
    p1: "pristines w1 n = RepoDir
               \<lparr>is_bare = False, mirror = False, shallow = True, origin_urls = Some [URL e],
                head = Some (b, h), alternates = None, own_commits = [h]\<rparr>"
    by blast
  show ?thesis
  proof (cases "extractRepoInfo w1 (pristines w1 n)")
    case (Inl x)
    with v p c i have "w' = w1 \<and> res \<noteq> Inr ()" by (auto simp: Init_def)
    with p1 show ?thesis by auto
  next
    case (Inr info)
    with p1 have hd: "info_DefaultBranch info = b \<and> info_CurrentBranchHash info = h"
      using extractRepoInfo_success by fastforce
    obtain r2 w2 where u: "updateMetadata n info w1 = (r2, w2)"
      by (cases "updateMetadata n info w1")
    from updateMetadata_frame [OF u] have f2: "pristines w2 = pristines w1" by simp
    show ?thesis
    proof (cases r2)
      case (Inl x)
      with v p c i Inr u have "w' = w2 \<and> res \<noteq> Inr ()" by (auto simp: Init_def)
      with p1 f2 show ?thesis by auto
    next
      case r2: (Inr y)
      with v p c i Inr u have w': "w' = print (Info ''Initialized pristine'' n) w2"
        by (auto simp: Init_def)
      from u r2 have "updateMetadata n info w1 = (Inr (), w2)" by simp
      from updateMetadata_success [OF this] hd obtain md where
        m: "get_meta w2 n = Doc md" "DefaultBranch md = json_coerce b"
           "CurrentBranchHash md = json_coerce h"
        by auto
      have "pristines w' n = pristines w1 n" "get_meta w' n = get_meta w2 n"
        using f2 by (simp_all add: w' print_def get_meta_def)
      with p1 m show ?thesis by auto
    qed
  qed
qed

lemma Init_ok:
  assumes v: "loadRepoFromVault w n = Inr e" and p: "pristines w n = NoDir"
    and mk: "\<not> io_fails w (MkdirPristine n)"
    and net: "network w (URL e) None = Inr rr" and hist: "remote_history rr = tip # older"
    and md: "get_meta w n = Doc md" and wr: "\<not> io_fails w (WriteMetadataFile n)"
  shows "fst (Init n w) = Inr () \<and>
         pristines (snd (Init n w)) n = RepoDir
               \<lparr>is_bare = False, mirror = False, shallow = True, origin_urls = Some [URL e],
                head = Some (remote_head rr, tip), alternates = None, own_commits = [tip]\<rparr> \<and>
         vault_file (snd (Init n w)) = vault_file w \<and>
         net_log (snd (Init n w)) = net_log w @ [(URL e, None)]"
proof -
  define r where "r = \<lparr>is_bare = False, mirror = False, shallow = True, origin_urls = Some [URL e],
                head = Some (remote_head rr, tip), alternates = None, own_commits = [tip]\<rparr>"
  define w1 where "w1 = w\<lparr>pristines := (pristines w)(n := RepoDir r),
              net_log := net_log w @ [(URL e, None)]\<rparr>"
  have c: "cloneAsReference (URL e) n w = (Inr (), w1)"
    unfolding w1_def r_def by (rule cloneAsReference_ok [OF p mk net hist])
  have p1: "pristines w1 n = RepoDir r" by (simp add: w1_def)
  define info where "info = \<lparr>info_DefaultBranch = remote_head rr, info_CurrentBranchHash = tip,
     info_Readme = first_readme (commit_files w1 tip)
                     [''README.md'', ''README.rst'', ''README.txt'', ''README'']\<rparr>"
  have x: "extractRepoInfo w1 (pristines w1 n) = Inr info"
    by (simp add: p1 extractRepoInfo_def PlainOpen_def r_def commits_of_def info_def)
  have md1: "get_meta w1 n = Doc md" using md by (simp add: w1_def get_meta_def)
  have wr1: "\<not> io_fails w1 (WriteMetadataFile n)" using wr by (simp add: w1_def)
  obtain r2 w2 where u: "updateMetadata n info w1 = (r2, w2)"
    by (cases "updateMetadata n info w1")
  from updateMetadata_ok [OF md1 wr1, of info] u have r2: "r2 = Inr ()" by simp
  from updateMetadata_frame [OF u] have f2:
    "pristines w2 = pristines w1" "vault_file w2 = vault_file w1" "net_log w2 = net_log w1"
    by simp_all
  have i: "Init n w = (Inr (), print (Info ''Initialized pristine'' n) w2)"
    using v p c x u r2 by (simp add: Init_def)
  have f: "pristines (print (Info ''Initialized pristine'' n) w2) n = RepoDir r \<and>
           vault_file (print (Info ''Initialized pristine'' n) w2) = vault_file w \<and>
           net_log (print (Info ''Initialized pristine'' n) w2) = net_log w @ [(URL e, None)]"
    using f2 by (simp add: print_def w1_def)
  from i f show ?thesis unfolding r_def by simp
qed

lemma Init_not_already_exists:
  "\<not> stat_ok (stat_dir (pristines w n)) \<Longrightarrow> fst (Init n w) \<noteq> Inl (PristineAlreadyExists n)"
  by (simp add: Init_def split: sum.splits prod.splits)

lemma alpha_facts:
  "loadRepoFromVault vault_world ''alpha'' =
     Inr \<lparr>Name = ''alpha'', URL = ''https://example.com/o/alpha.git'', AddedOn = 0\<rparr>"
  "pristines vault_world ''alpha'' = NoDir"
  "\<not> io_fails vault_world (MkdirPristine ''alpha'')"
  "network vault_world
     (URL \<lparr>Name = ''alpha'', URL = ''https://example.com/o/alpha.git'', AddedOn = 0\<rparr>) None =
     Inr example_remote"
  "remote_history example_remote = ''c3'' # [''c2'', ''c1'']"
  "get_meta vault_world ''alpha'' = Doc (new_metadata ''https://example.com/o/alpha.git'' 0 0)"
  "\<not> io_fails vault_world (WriteMetadataFile ''alpha'')"
  by (simp_all add: vault_world_def fresh_world_def loadRepoFromVault_def
      read_vault_file_def get_meta_def example_remote_def)

lemma beta_facts:
  "loadRepoFromVault vault_world ''beta'' =
     Inr \<lparr>Name = ''beta'', URL = ''https://example.com/o/beta.git'', AddedOn = 0\<rparr> \<and>
   pristines vault_world ''beta'' = NoDir \<and>
   \<not> io_fails vault_world (MkdirPristine ''beta'') \<and>
   network vault_world ''https://example.com/o/beta.git'' None = Inl ErrAuthenticationRequired \<and>
   net_log vault_world = []"
  by (simp add: vault_world_def fresh_world_def loadRepoFromVault_def read_vault_file_def)

lemma Init_alpha_ok:
  "fst (Init ''alpha'' vault_world) = Inr () \<and>
   pristines (snd (Init ''alpha'' vault_world)) ''alpha'' =
     RepoDir \<lparr>is_bare = False, mirror = False, shallow = True,
              origin_urls = Some [''https://example.com/o/alpha.git''],
              head = Some (''main'', ''c3''), alternates = None, own_commits = [''c3'']\<rparr>"
  using Init_ok [OF alpha_facts] by (simp add: example_remote_def)

text \<open>
  What \<open>destroyPristine\<close> leaves alone when the name is one path element and the
  roots are laid out apart: the vault index, every metadata directory, every clone and
  every other pristine; and \<open>Init\<close> of the name is possible again.
\<close>

lemma destroyPristine_plain_name:
  assumes d: "destroyPristine n w = (res, w')" and n: "plain_name n"
    and sep: "separate_roots (roots w)"
    and ks: "\<forall>k\<in>fst ` set (meta_dirs w). plain_name k"
  shows "vault_file w' = vault_file w \<and> meta_dirs w' = meta_dirs w \<and>
         (\<forall>k. plain_name k \<longrightarrow> clones w' k = clones w k) \<and>
         (\<forall>k. plain_name k \<and> k \<noteq> n \<longrightarrow> pristines w' k = pristines w k) \<and>
         (res = Inr () \<longrightarrow>
            pristines w' n = NoDir \<and>
            fst (Init n w') \<noteq> Inl (PristineAlreadyExists n) \<and>
            (\<forall>e rr tip older md.
               loadRepoFromVault w n = Inr e \<and> \<not> io_fails w (MkdirPristine n) \<and>
               network w (URL e) None = Inr rr \<and> remote_history rr = tip # older \<and>
               get_meta w n = Doc md \<and> \<not> io_fails w (WriteMetadataFile n) \<longrightarrow>
                 fst (Init n w') = Inr ()))"
proof (cases "io_fails w (RemovePristine n)")
  case True
  with d show ?thesis by (auto simp: destroyPristine_def RemoveAll_pristine_def)
next
  case False
  define w1 where "w1 = RemoveAll_tree (Join_elems (pristinesPath (roots w)) n) w"
  from False d have res: "res = Inr ()"
    and w': "w' = print (Info ''Destroyed pristine (kept in vault)'' n) w1"
    by (auto simp: destroyPristine_def RemoveAll_pristine_def w1_def)
  from sep have pv: "\<not> under (path_elems (pristinesPath (roots w))) (path_elems (vaultPath (roots w)))"
    and vp: "\<not> under (path_elems (vaultPath (roots w))) (path_elems (pristinesPath (roots w)))"
    and pc: "\<not> under (path_elems (pristinesPath (roots w))) (path_elems (clonesPath (roots w)))"
    and cp: "\<not> under (path_elems (clonesPath (roots w))) (path_elems (pristinesPath (roots w)))"
    by (simp_all add: separate_roots_def)
  from RemoveAll_tree_pristine_frame [OF n pv vp ks]
  have vm: "vault_file w1 = vault_file w \<and> meta_dirs w1 = meta_dirs w" by (simp add: w1_def)
  have cl: "clones w1 k = clones w k" if "plain_name k" for k
    using remove_below_plain [OF n that pc cp] by (simp add: w1_def RemoveAll_tree_def)
  have pr: "pristines w1 k = (if k = n then NoDir else pristines w k)" if "plain_name k" for k
    using remove_below_same_root [OF n that] by (simp add: w1_def RemoveAll_tree_def)
  have rest: "io_fails w1 = io_fails w \<and> network w1 = network w"
    by (simp add: w1_def RemoveAll_tree_def)
  have frame: "vault_file w' = vault_file w \<and> meta_dirs w' = meta_dirs w \<and>
         (\<forall>k. plain_name k \<longrightarrow> clones w' k = clones w k) \<and>
         (\<forall>k. plain_name k \<and> k \<noteq> n \<longrightarrow> pristines w' k = pristines w k) \<and>
         pristines w' n = NoDir"
    using vm cl pr n by (simp add: w' print_def)
  then have gone: "\<not> stat_ok (stat_dir (pristines w' n))" by simp
  have again: "fst (Init n w') = Inr ()"
    if h: "loadRepoFromVault w n = Inr e \<and> \<not> io_fails w (MkdirPristine n) \<and>
           network w (URL e) None = Inr rr \<and> remote_history rr = tip # older \<and>
           get_meta w n = Doc md \<and> \<not> io_fails w (WriteMetadataFile n)"
    for e rr tip older md
  proof -
    have "loadRepoFromVault w' n = Inr e" "pristines w' n = NoDir"
      "\<not> io_fails w' (MkdirPristine n)" "network w' (URL e) None = Inr rr"
      "remote_history rr = tip # older" "get_meta w' n = Doc md"
      "\<not> io_fails w' (WriteMetadataFile n)"
      using h vm rest frame
      by (simp_all add: w' print_def loadRepoFromVault_def read_vault_file_def get_meta_def)
    from Init_ok [OF this] show ?thesis by (rule conjunct1)
  qed
  from frame Init_not_already_exists [OF gone] again res show ?thesis by blast
qed


text \<open>
  Claim C2, as stated, fails: the pristine that \<open>Init\<close> creates is not a bare
  mirror but a repository with a working tree, cut to the newest commit of one branch;
  and when the directory is present but the index cannot be read (or does not list the
  name), \<open>Init\<close> fails with that error, not with the already-exists error.
\<close>

theorem Init_counterexample:
  "fst (Init ''alpha'' vault_world) = Inr () \<and>
   pristines (snd (Init ''alpha'' vault_world)) ''alpha'' =
     RepoDir \<lparr>is_bare = False, mirror = False, shallow = True,
              origin_urls = Some [''https://example.com/o/alpha.git''],
              head = Some (''main'', ''c3''), alternates = None, own_commits = [''c3'']\<rparr> \<and>
   stat_ok (stat_dir (pristines (pristine_world\<lparr>vault_file := Absent\<rparr>) ''alpha'')) \<and>
   fst (Init ''alpha'' (pristine_world\<lparr>vault_file := Absent\<rparr>)) =
     Inl (Wrap ''failed to load repository from vault''
           (Wrap ''failed to read vault file'' (OSError ENOENT)))"
proof -
  have "stat_ok (stat_dir (pristines (pristine_world\<lparr>vault_file := Absent\<rparr>) ''alpha''))"
    by (simp add: pristine_world_def)
  moreover have "fst (Init ''alpha'' (pristine_world\<lparr>vault_file := Absent\<rparr>)) =
     Inl (Wrap ''failed to load repository from vault''
           (Wrap ''failed to read vault file'' (OSError ENOENT)))"
    by (simp add: Init_def loadRepoFromVault_def read_vault_file_def)
  ultimately show ?thesis using Init_alpha_ok by blast
qed

text \<open>
  Claim C2, amended. \<open>Init\<close> first looks the name up in the vault index: when the
  index cannot be read or does not list the name it fails with that error and changes
  nothing, whether a pristine directory is present or not. For a listed name it fails
  with the already-exists error when the pristine directory is present, and changes
  nothing. Otherwise it clones from the URL of the entry; when the clone fails, \<open>Init\<close>
  fails with its error; when the clone succeeds, the pristine is a non-bare, non-mirror,
  shallow clone (depth 1) whose \<open>origin\<close> is the URL of the entry, and it stays in
  place whatever the outcome of \<open>Init\<close> is; when \<open>Init\<close> as a whole succeeds, the
  branch and the commit of the HEAD of that clone are recorded (as JSON text) as default
  branch and current hash in the metadata of the repository. \<open>Init\<close> succeeds whenever
  the entry is listed, there is no directory, the directory can be made, the remote
  answers with at least one commit, and the metadata file exists and can be written.
\<close>

theorem Init_behaviour:
  "(loadRepoFromVault w n = Inl e \<longrightarrow>
      Init n w = (Inl (Wrap ''failed to load repository from vault'' e), w)) \<and>
   (loadRepoFromVault w n = Inr r \<and> stat_ok (stat_dir (pristines w n)) \<longrightarrow>
      Init n w = (Inl (PristineAlreadyExists n), w)) \<and>
   (loadRepoFromVault w n = Inr r \<and> \<not> stat_ok (stat_dir (pristines w n)) \<and>
    cloneAsReference (URL r) n w = (Inl e1, w1) \<longrightarrow>
      Init n w = (Inl (Wrap ''failed to clone repository'' e1), w1)) \<and>
   (loadRepoFromVault w n = Inr r \<and> \<not> stat_ok (stat_dir (pristines w n)) \<and>
    cloneAsReference (URL r) n w = (Inr (), w1) \<and> Init n w = (res, w') \<longrightarrow>
      (\<exists>b h. pristines w' n = RepoDir
                \<lparr>is_bare = False, mirror = False, shallow = True, origin_urls = Some [URL r],
                 head = Some (b, h), alternates = None, own_commits = [h]\<rparr> \<and>
             (res = Inr () \<longrightarrow>
                (\<exists>md. get_meta w' n = Doc md \<and> DefaultBranch md = json_coerce b \<and>
                      CurrentBranchHash md = json_coerce h)))) \<and>
   (loadRepoFromVault w n = Inr r \<and> pristines w n = NoDir \<and>
    \<not> io_fails w (MkdirPristine n) \<and> network w (URL r) None = Inr rr \<and>
    remote_history rr = tip # older \<and> get_meta w n = Doc md0 \<and>
    \<not> io_fails w (WriteMetadataFile n) \<longrightarrow>
      fst (Init n w) = Inr ())"
proof (intro conjI impI)
  assume "loadRepoFromVault w n = Inl e"
  then show "Init n w = (Inl (Wrap ''failed to load repository from vault'' e), w)"
    by (simp add: Init_def)
next
  assume "loadRepoFromVault w n = Inr r \<and> stat_ok (stat_dir (pristines w n))"
  then show "Init n w = (Inl (PristineAlreadyExists n), w)" by (simp add: Init_def)
next
  assume "loadRepoFromVault w n = Inr r \<and> \<not> stat_ok (stat_dir (pristines w n)) \<and>
    cloneAsReference (URL r) n w = (Inl e1, w1)"
  then show "Init n w = (Inl (Wrap ''failed to clone repository'' e1), w1)"
    by (simp add: Init_def)
next
  assume h: "loadRepoFromVault w n = Inr r \<and> \<not> stat_ok (stat_dir (pristines w n)) \<and>
    cloneAsReference (URL r) n w = (Inr (), w1) \<and> Init n w = (res, w')"
  from h have a: "loadRepoFromVault w n = Inr r" by (rule conjunct1)
  from h have b: "\<not> stat_ok (stat_dir (pristines w n))" by blast
  from h have c: "cloneAsReference (URL r) n w = (Inr (), w1)" by blast
  from h have d: "Init n w = (res, w')" by blast
  show "\<exists>b h. pristines w' n = RepoDir
                \<lparr>is_bare = False, mirror = False, shallow = True, origin_urls = Some [URL r],
                 head = Some (b, h), alternates = None, own_commits = [h]\<rparr> \<and>
             (res = Inr () \<longrightarrow>
                (\<exists>md. get_meta w' n = Doc md \<and> DefaultBranch md = json_coerce b \<and>
                      CurrentBranchHash md = json_coerce h))"
    by (rule Init_after_clone [OF a b c d])
next
  assume h: "loadRepoFromVault w n = Inr r \<and> pristines w n = NoDir \<and>
    \<not> io_fails w (MkdirPristine n) \<and> network w (URL r) None = Inr rr \<and>
    remote_history rr = tip # older \<and> get_meta w n = Doc md0 \<and>
    \<not> io_fails w (WriteMetadataFile n)"
  then have "loadRepoFromVault w n = Inr r" "pristines w n = NoDir"
    "\<not> io_fails w (MkdirPristine n)" "network w (URL r) None = Inr rr"
    "remote_history rr = tip # older" "get_meta w n = Doc md0"
    "\<not> io_fails w (WriteMetadataFile n)"
    by blast+
  from Init_ok [OF this] show "fst (Init n w) = Inr ()" by (rule conjunct1)
qed

theorem Init_behaviour_witness:
  "loadRepoFromVault fresh_world ''alpha'' =
     Inl (Wrap ''failed to read vault file'' (OSError ENOENT)) \<and>
   Init ''alpha'' fresh_world =
     (Inl (Wrap ''failed to load repository from vault''
            (Wrap ''failed to read vault file'' (OSError ENOENT))), fresh_world) \<and>
   stat_ok (stat_dir (pristines pristine_world ''alpha'')) \<and>
   Init ''alpha'' pristine_world = (Inl (PristineAlreadyExists ''alpha''), pristine_world) \<and>
   fst (cloneAsReference ''https://example.com/o/beta.git'' ''beta'' vault_world) =
     Inl (Wrap ''failed to clone repository'' (GitError ErrAuthenticationRequired)) \<and>
   Init ''beta'' vault_world =
     (Inl (Wrap ''failed to clone repository''
            (Wrap ''failed to clone repository'' (GitError ErrAuthenticationRequired))),
      snd (cloneAsReference ''https://example.com/o/beta.git'' ''beta'' vault_world)) \<and>
   fst (cloneAsReference ''https://example.com/o/alpha.git'' ''alpha''
          (vault_world\<lparr>meta_dirs := []\<rparr>)) = Inr () \<and>
   fst (Init ''alpha'' (vault_world\<lparr>meta_dirs := []\<rparr>)) =
     Inl (Wrap ''failed to update metadata''
           (Wrap ''failed to read metadata file'' (OSError ENOENT))) \<and>
   (\<exists>b h. pristines (snd (Init ''alpha'' (vault_world\<lparr>meta_dirs := []\<rparr>))) ''alpha'' =
      RepoDir \<lparr>is_bare = False, mirror = False, shallow = True,
               origin_urls = Some [''https://example.com/o/alpha.git''],
               head = Some (b, h), alternates = None, own_commits = [h]\<rparr>) \<and>
   fst (Init ''alpha'' vault_world) = Inr () \<and>
   (\<exists>b h md. pristines (snd (Init ''alpha'' vault_world)) ''alpha'' =
      RepoDir \<lparr>is_bare = False, mirror = False, shallow = True,
               origin_urls = Some [''https://example.com/o/alpha.git''],
               head = Some (b, h), alternates = None, own_commits = [h]\<rparr> \<and>
      get_meta (snd (Init ''alpha'' vault_world)) ''alpha'' = Doc md \<and>
      DefaultBranch md = json_coerce b \<and> CurrentBranchHash md = json_coerce h)"
proof -
  let ?a = "\<lparr>Name = ''alpha'', URL = ''https://example.com/o/alpha.git'', AddedOn = 0\<rparr>"
  let ?b = "\<lparr>Name = ''beta'', URL = ''https://example.com/o/beta.git'', AddedOn = 0\<rparr>"
  let ?V = "vault_world\<lparr>meta_dirs := []\<rparr>"
  have l1: "loadRepoFromVault fresh_world ''alpha'' =
     Inl (Wrap ''failed to read vault file'' (OSError ENOENT))"
    by (simp add: loadRepoFromVault_def read_vault_file_def fresh_world_def)
  note c1 = Init_behaviour [where w = fresh_world and n = "''alpha''", THEN conjunct1, THEN mp, OF l1]
  have s: "stat_ok (stat_dir (pristines pristine_world ''alpha''))"
    by (simp add: pristine_world_def)
  have l2: "loadRepoFromVault pristine_world ''alpha'' = Inr ?a"
    by (simp add: pristine_world_def vault_world_def fresh_world_def loadRepoFromVault_def
        read_vault_file_def)
  note c2 = Init_behaviour [where w = pristine_world and n = "''alpha''" and r = ?a,
      THEN conjunct2, THEN conjunct1, THEN mp, OF conjI [OF l2 s]]
  have l3: "loadRepoFromVault vault_world ''beta'' = Inr ?b"
    using beta_facts by blast
  have n3: "\<not> stat_ok (stat_dir (pristines vault_world ''beta''))"
    using beta_facts by simp
  have f3: "fst (cloneAsReference ''https://example.com/o/beta.git'' ''beta'' vault_world) =
     Inl (Wrap ''failed to clone repository'' (GitError ErrAuthenticationRequired))"
    by (simp add: cloneAsReference_def MkdirAll_pristine_def cloneAsReference_options_def
        PlainClone_def request_def Let_def vault_world_def fresh_world_def)
  then have k3: "cloneAsReference (URL ?b) ''beta'' vault_world =
     (Inl (Wrap ''failed to clone repository'' (GitError ErrAuthenticationRequired)),
      snd (cloneAsReference ''https://example.com/o/beta.git'' ''beta'' vault_world))"
    by (simp add: prod_eq_iff)
  note c3 = Init_behaviour [where w = vault_world and n = "''beta''" and r = ?b
      and ?e1.0 = "Wrap ''failed to clone repository'' (GitError ErrAuthenticationRequired)"
      and ?w1.0 = "snd (cloneAsReference ''https://example.com/o/beta.git'' ''beta'' vault_world)",
      THEN conjunct2, THEN conjunct2, THEN conjunct1, THEN mp, OF conjI [OF l3 conjI [OF n3 k3]]]
  have l4: "loadRepoFromVault ?V ''alpha'' = Inr ?a"
    by (simp add: vault_world_def fresh_world_def loadRepoFromVault_def read_vault_file_def)
  have n4: "\<not> stat_ok (stat_dir (pristines ?V ''alpha''))"
    by (simp add: vault_world_def fresh_world_def)
  have f4: "fst (cloneAsReference ''https://example.com/o/alpha.git'' ''alpha'' ?V) = Inr ()"
    by (simp add: cloneAsReference_def MkdirAll_pristine_def cloneAsReference_options_def
        PlainClone_def request_def resolve_ref_def Let_def vault_world_def fresh_world_def
        example_remote_def)
  then have k4: "cloneAsReference (URL ?a) ''alpha'' ?V =
     (Inr (), snd (cloneAsReference ''https://example.com/o/alpha.git'' ''alpha'' ?V))"
    by (simp add: prod_eq_iff)
  have i4: "Init ''alpha'' ?V = (fst (Init ''alpha'' ?V), snd (Init ''alpha'' ?V))"
    by simp
  have r4: "fst (Init ''alpha'' ?V) =
     Inl (Wrap ''failed to update metadata''
           (Wrap ''failed to read metadata file'' (OSError ENOENT)))"
    by (simp add: Init_def loadRepoFromVault_def read_vault_file_def vault_world_def
      fresh_world_def cloneAsReference_def MkdirAll_pristine_def cloneAsReference_options_def
      PlainClone_def request_def resolve_ref_def extractRepoInfo_def PlainOpen_def commits_of_def
      updateMetadata_def get_meta_def example_remote_def Let_def)
  note c4 = Init_behaviour [where w = ?V and n = "''alpha''" and r = ?a
      and ?w1.0 = "snd (cloneAsReference ''https://example.com/o/alpha.git'' ''alpha'' ?V)"
      and res = "fst (Init ''alpha'' ?V)" and w' = "snd (Init ''alpha'' ?V)",
      THEN conjunct2, THEN conjunct2, THEN conjunct2, THEN conjunct1, THEN mp,
      OF conjI [OF l4 conjI [OF n4 conjI [OF k4 i4]]]]
  from c4 have p4: "\<exists>b h. pristines (snd (Init ''alpha'' ?V)) ''alpha'' =
      RepoDir \<lparr>is_bare = False, mirror = False, shallow = True,
               origin_urls = Some [''https://example.com/o/alpha.git''],
               head = Some (b, h), alternates = None, own_commits = [h]\<rparr>"
    by auto
  have h5: "loadRepoFromVault vault_world ''alpha'' = Inr ?a \<and> pristines vault_world ''alpha'' = NoDir \<and>
    \<not> io_fails vault_world (MkdirPristine ''alpha'') \<and>
    network vault_world (URL ?a) None = Inr example_remote \<and>
    remote_history example_remote = ''c3'' # [''c2'', ''c1''] \<and>
    get_meta vault_world ''alpha'' = Doc (new_metadata ''https://example.com/o/alpha.git'' 0 0) \<and>
    \<not> io_fails vault_world (WriteMetadataFile ''alpha'')"
    using alpha_facts by blast
  note c5 = Init_behaviour [where w = vault_world and n = "''alpha''" and r = ?a
      and rr = example_remote and tip = "''c3''" and older = "[''c2'', ''c1'']"
      and ?md0.0 = "new_metadata ''https://example.com/o/alpha.git'' 0 0",
      THEN conjunct2, THEN conjunct2, THEN conjunct2, THEN conjunct2, THEN mp, OF h5]
  have n6: "\<not> stat_ok (stat_dir (pristines vault_world ''alpha''))"
    using alpha_facts by simp
  have f6: "fst (cloneAsReference ''https://example.com/o/alpha.git'' ''alpha'' vault_world) = Inr ()"
    by (simp add: cloneAsReference_def MkdirAll_pristine_def cloneAsReference_options_def
        PlainClone_def request_def resolve_ref_def Let_def vault_world_def fresh_world_def
        example_remote_def)
  then have k6: "cloneAsReference (URL ?a) ''alpha'' vault_world =
     (Inr (), snd (cloneAsReference ''https://example.com/o/alpha.git'' ''alpha'' vault_world))"
    by (simp add: prod_eq_iff)
  have i6: "Init ''alpha'' vault_world = (Inr (), snd (Init ''alpha'' vault_world))"
    using c5 by (simp add: prod_eq_iff)
  note c6 = Init_behaviour [where w = vault_world and n = "''alpha''" and r = ?a
      and ?w1.0 = "snd (cloneAsReference ''https://example.com/o/alpha.git'' ''alpha'' vault_world)"
      and res = "Inr ()" and w' = "snd (Init ''alpha'' vault_world)",
      THEN conjunct2, THEN conjunct2, THEN conjunct2, THEN conjunct1, THEN mp,
      OF conjI [OF alpha_facts(1) conjI [OF n6 conjI [OF k6 i6]]]]
  from c6 have p6: "\<exists>b h md. pristines (snd (Init ''alpha'' vault_world)) ''alpha'' =
      RepoDir \<lparr>is_bare = False, mirror = False, shallow = True,
               origin_urls = Some [''https://example.com/o/alpha.git''],
               head = Some (b, h), alternates = None, own_commits = [h]\<rparr> \<and>
      get_meta (snd (Init ''alpha'' vault_world)) ''alpha'' = Doc md \<and>
      DefaultBranch md = json_coerce b \<and> CurrentBranchHash md = json_coerce h"
    by auto
  show ?thesis
    by (rule conjI [OF l1 conjI [OF c1 conjI [OF s conjI [OF c2 conjI [OF f3 conjI [OF c3
          conjI [OF f4 conjI [OF r4 conjI [OF p4 conjI [OF c5 p6]]]]]]]]]])
qed

lemma bulk_report_names: "map fst (fst (bulk_report operation ns w)) = ns"
proof (induction ns arbitrary: w)
  case Nil
  then show ?case by simp
next
  case (Cons n ns)
  obtain res w1 where o: "operation n w = (res, w1)" by (cases "operation n w")
  obtain report w2 where b: "bulk_report operation ns w1 = (report, w2)"
    by (cases "bulk_report operation ns w1")
  from Cons [of w1] o b show ?case by simp
qed

lemma InitAll_loop_report:
  "InitAll_loop repos errs w =
     (errs @ failures (fst (bulk_report Init (map Name repos) w)),
      snd (bulk_report Init (map Name repos) w))"
proof (induction repos arbitrary: errs w)
  case Nil
  then show ?case by simp
next
  case (Cons repo repos)
  obtain res w1 where i: "Init (Name repo) w = (res, w1)" by (cases "Init (Name repo) w")
  obtain report w2 where b: "bulk_report Init (map Name repos) w1 = (report, w2)"
    by (cases "bulk_report Init (map Name repos) w1")
  show ?case
  proof (cases res)
    case (Inl e)
    with i b Cons.IH [of "errs @ [(Name repo, e)]" w1] show ?thesis by simp
  next
    case (Inr u)
    with i b Cons.IH [of errs w1] show ?thesis by simp
  qed
qed

lemma SyncAll_loop_report:
  "SyncAll_loop repos errs w =
     (errs @ failures (fst (bulk_report Sync (map Name repos) w)),
      snd (bulk_report Sync (map Name repos) w))"
proof (induction repos arbitrary: errs w)
  case Nil
  then show ?case by simp
next
  case (Cons repo repos)
  obtain res w1 where i: "Sync (Name repo) w = (res, w1)" by (cases "Sync (Name repo) w")
  obtain report w2 where b: "bulk_report Sync (map Name repos) w1 = (report, w2)"
    by (cases "bulk_report Sync (map Name repos) w1")
  show ?case
  proof (cases res)
    case (Inl e)
    with i b Cons.IH [of "errs @ [(Name repo, e)]" w1] show ?thesis by simp
  next
    case (Inr u)
    with i b Cons.IH [of errs w1] show ?thesis by simp
  qed
qed

lemma bulk_example:
  "successes (fst (bulk_report Init [''alpha'', ''beta'', ''gamma''] vault_world)) =
     [''alpha'', ''gamma''] \<and>
   failures (fst (bulk_report Init [''alpha'', ''beta'', ''gamma''] vault_world)) =
     [(''beta'', Wrap ''failed to clone repository''
                 (Wrap ''failed to clone repository'' (GitError ErrAuthenticationRequired)))] \<and>
   stat_ok (stat_dir (pristines
     (snd (bulk_report Init [''alpha'', ''beta'', ''gamma''] vault_world)) ''gamma''))"
  by (simp add: Init_def loadRepoFromVault_def read_vault_file_def vault_world_def fresh_world_def
      cloneAsReference_def MkdirAll_pristine_def cloneAsReference_options_def PlainClone_def
      request_def resolve_ref_def extractRepoInfo_def PlainOpen_def commits_of_def
      updateMetadata_def get_meta_def put_meta_def time_Now_def print_def example_remote_def
      Let_def)

text \<open>
  Claim C4. For the repositories the vault index lists, \<open>InitAll\<close> and \<open>SyncAll\<close>
  run \<open>Init\<close> and \<open>Sync\<close> for every one of them, in the order of the index, each on
  the state its predecessors left, whatever their outcomes were: the errors returned are
  exactly the failures of the report that keeps an outcome for every name, the state
  returned is the state after the last operation, and the result is success only when no
  operation failed.
\<close>

theorem bulk_operations_attempt_every_repository:
  assumes "loadAllReposFromVault w = Inr repos"
  shows "map fst (fst (bulk_report Init (map Name repos) w)) = map Name repos \<and>
         InitAll w =
           (if failures (fst (bulk_report Init (map Name repos) w)) = []
            then (Inr (), print (Count ''Initialized repositories'' (length repos))
                            (snd (bulk_report Init (map Name repos) w)))
            else (Inl (SomeRepositoriesFailedToInitialize
                        (failures (fst (bulk_report Init (map Name repos) w)))),
                  snd (bulk_report Init (map Name repos) w))) \<and>
         map fst (fst (bulk_report Sync (map Name repos) w)) = map Name repos \<and>
         SyncAll w =
           (if failures (fst (bulk_report Sync (map Name repos) w)) = []
            then (Inr (), print (Count ''Synced repositories'' (length repos))
                            (snd (bulk_report Sync (map Name repos) w)))
            else (Inl (SomeRepositoriesFailedToSync
                        (failures (fst (bulk_report Sync (map Name repos) w)))),
                  snd (bulk_report Sync (map Name repos) w)))"
proof -
  have i: "InitAll w =
           (if failures (fst (bulk_report Init (map Name repos) w)) = []
            then (Inr (), print (Count ''Initialized repositories'' (length repos))
                            (snd (bulk_report Init (map Name repos) w)))
            else (Inl (SomeRepositoriesFailedToInitialize
                        (failures (fst (bulk_report Init (map Name repos) w)))),
                  snd (bulk_report Init (map Name repos) w)))"
    using assms by (simp add: InitAll_def InitAll_loop_report)
  have s: "SyncAll w =
           (if failures (fst (bulk_report Sync (map Name repos) w)) = []
            then (Inr (), print (Count ''Synced repositories'' (length repos))
                            (snd (bulk_report Sync (map Name repos) w)))
            else (Inl (SomeRepositoriesFailedToSync
                        (failures (fst (bulk_report Sync (map Name repos) w)))),
                  snd (bulk_report Sync (map Name repos) w)))"
    using assms by (simp add: SyncAll_def SyncAll_loop_report)
  show ?thesis using i s bulk_report_names by blast
qed

theorem bulk_operations_attempt_every_repository_witness:
  "loadAllReposFromVault vault_world =
     Inr [\<lparr>Name = ''alpha'', URL = ''https://example.com/o/alpha.git'', AddedOn = 0\<rparr>,
          \<lparr>Name = ''beta'', URL = ''https://example.com/o/beta.git'', AddedOn = 0\<rparr>,
          \<lparr>Name = ''gamma'', URL = ''https://example.com/o/gamma.git'', AddedOn = 0\<rparr>] \<and>
   fst (InitAll vault_world) =
     Inl (SomeRepositoriesFailedToInitialize
       [(''beta'', Wrap ''failed to clone repository''
                   (Wrap ''failed to clone repository'' (GitError ErrAuthenticationRequired)))]) \<and>
   successes (fst (bulk_report Init [''alpha'', ''beta'', ''gamma''] vault_world)) =
     [''alpha'', ''gamma''] \<and>
   stat_ok (stat_dir (pristines (snd (InitAll vault_world)) ''gamma''))"
proof -
  have h: "loadAllReposFromVault vault_world =
     Inr [\<lparr>Name = ''alpha'', URL = ''https://example.com/o/alpha.git'', AddedOn = 0\<rparr>,
          \<lparr>Name = ''beta'', URL = ''https://example.com/o/beta.git'', AddedOn = 0\<rparr>,
          \<lparr>Name = ''gamma'', URL = ''https://example.com/o/gamma.git'', AddedOn = 0\<rparr>]"
    by (simp add: loadAllReposFromVault_def read_vault_file_def vault_world_def fresh_world_def)
  from bulk_operations_attempt_every_repository [OF h]
  have "InitAll vault_world =
          (Inl (SomeRepositoriesFailedToInitialize
                 (failures (fst (bulk_report Init [''alpha'', ''beta'', ''gamma''] vault_world)))),
           snd (bulk_report Init [''alpha'', ''beta'', ''gamma''] vault_world))"
    using bulk_example by simp
  with h bulk_example show ?thesis by simp
qed

lemma anonymous_requests_same:
  "net_log w' = net_log w \<Longrightarrow> anonymous_requests w w' k"
  by (simp add: anonymous_requests_def)

lemma anonymous_requests_one:
  "net_log w' = net_log w @ [(u, None)] \<Longrightarrow> anonymous_requests w w' (Suc k)"
  by (simp add: anonymous_requests_def)

lemma anonymous_requests_two:
  "net_log w' = net_log w @ [(u, None), (v, None)] \<Longrightarrow> anonymous_requests w w' (Suc (Suc k))"
  by (simp add: anonymous_requests_def)

lemma updateMetadata_log:
  "updateMetadata n info w = (r, w2) \<Longrightarrow> net_log w2 = net_log w"
  by (auto simp: updateMetadata_def time_Now_def put_meta_def Let_def
      split: json_file.splits if_splits)

lemma cloneAsReference_log:
  "cloneAsReference url n w = (r, w1) \<Longrightarrow>
     net_log w1 = net_log w \<or> net_log w1 = net_log w @ [(url, None)]"
  by (auto simp: cloneAsReference_def MkdirAll_pristine_def cloneAsReference_options_def
      PlainClone_def request_def Let_def
      split: if_splits sum.splits prod.splits dir_state.splits option.splits)

lemma Init_log:
  assumes "Init n w = (res, w')"
  shows "net_log w' = net_log w \<or> (\<exists>u. net_log w' = net_log w @ [(u, None)])"
proof (cases "loadRepoFromVault w n")
  case (Inl e)
  with assms show ?thesis by (simp add: Init_def)
next
  case (Inr repo)
  show ?thesis
  proof (cases "stat_ok (stat_dir (pristines w n))")
    case True
    with assms Inr show ?thesis by (simp add: Init_def)
  next
    case False
    obtain r w1 where c: "cloneAsReference (URL repo) n w = (r, w1)"
      by (cases "cloneAsReference (URL repo) n w")
    from assms Inr False c have "net_log w' = net_log w1"
      by (auto simp: Init_def print_def split: sum.splits prod.splits dest: updateMetadata_log)
    with cloneAsReference_log [OF c] show ?thesis by auto
  qed
qed

lemma Pull_log:
  "Pull n \<lparr>pull_RemoteName = [], pull_Auth = None\<rparr> w = (r, w1) \<Longrightarrow>
     net_log w1 = net_log w \<or> (\<exists>u. net_log w1 = net_log w @ [(u, None)])"
  by (auto simp: Pull_def request_def
      split: if_splits sum.splits prod.splits option.splits list.splits)

lemma Reset_hard_log: "Reset_hard n h w = (r, w1) \<Longrightarrow> net_log w1 = net_log w"
  by (auto simp: Reset_hard_def split: if_splits sum.splits prod.splits option.splits)

lemma hardResetToOrigin_log:
  "hardResetToOrigin n w = (r, w1) \<Longrightarrow>
     net_log w1 = net_log w \<or> (\<exists>u. net_log w1 = net_log w @ [(u, None)])"
  by (auto simp: hardResetToOrigin_def remote_List_def request_def
      split: if_splits sum.splits prod.splits option.splits list.splits
      dest: Reset_hard_log)

lemma Sync_log:
  assumes "Sync n w = (res, w')"
  shows "net_log w' = net_log w \<or> (\<exists>u. net_log w' = net_log w @ [(u, None)]) \<or>
         (\<exists>u v. net_log w' = net_log w @ [(u, None), (v, None)])"
proof -
  obtain p w1 where pl: "Pull n \<lparr>pull_RemoteName = [], pull_Auth = None\<rparr> w = (p, w1)"
    by (cases "Pull n \<lparr>pull_RemoteName = [], pull_Auth = None\<rparr> w")
  obtain r2 w2 where hr: "hardResetToOrigin n w1 = (r2, w2)"
    by (cases "hardResetToOrigin n w1")
  from assms pl hr have "net_log w' = net_log w \<or> net_log w' = net_log w1 \<or> net_log w' = net_log w2"
    by (auto simp: Sync_def print_def
        split: if_splits sum.splits prod.splits option.splits dest: updateMetadata_log)
  with Pull_log [OF pl] hardResetToOrigin_log [OF hr] show ?thesis by auto
qed

lemma Init_rejected:
  assumes "loadRepoFromVault w n = Inr e" and "pristines w n = NoDir"
    and "\<not> io_fails w (MkdirPristine n)" and "network w (URL e) None = Inl g"
  shows "Init n w =
           (Inl (Wrap ''failed to clone repository''
                  (Wrap ''failed to clone repository'' (GitError g))),
            w\<lparr>pristines := (pristines w)(n := PlainDir),
              net_log := net_log w @ [(URL e, None)]\<rparr>)"
  using assms
  by (simp add: Init_def cloneAsReference_def MkdirAll_pristine_def cloneAsReference_options_def
      PlainClone_def request_def Let_def)

lemma Sync_rejected:
  assumes "pristines w n = RepoDir r" and "\<not> is_bare r" and "origin_urls r = Some (u # us)"
    and "network w u None = Inl g" and "g \<noteq> NoErrAlreadyUpToDate"
  shows "Sync n w =
           (Inl (Wrap ''failed to pull changes'' (GitError g)),
            w\<lparr>net_log := net_log w @ [(u, None)]\<rparr>)"
  using assms
  by (simp add: Sync_def PlainOpen_def Worktree_def Pull_def request_def)

text \<open>
  Claim C3, as stated, fails: the clone of \<open>Init\<close> hands the engine options without
  any credentials, so there is no credential callback and no attempt counter; against a
  remote that asks for credentials it makes one request and returns the engine's error,
  wrapped as a failed clone.
\<close>

theorem credential_counter_counterexample:
  "opt_Auth (cloneAsReference_options ''https://example.com/o/beta.git'') = None \<and>
   fst (Init ''beta'' vault_world) =
     Inl (Wrap ''failed to clone repository''
           (Wrap ''failed to clone repository'' (GitError ErrAuthenticationRequired))) \<and>
   net_log (snd (Init ''beta'' vault_world)) = [(''https://example.com/o/beta.git'', None)]"
proof -
  have "Init ''beta'' vault_world =
           (Inl (Wrap ''failed to clone repository''
                  (Wrap ''failed to clone repository'' (GitError ErrAuthenticationRequired))),
            vault_world\<lparr>pristines := (pristines vault_world)(''beta'' := PlainDir),
              net_log := net_log vault_world @
                [(URL \<lparr>Name = ''beta'', URL = ''https://example.com/o/beta.git'', AddedOn = 0\<rparr>,
                  None)]\<rparr>)"
    using beta_facts by (intro Init_rejected) simp_all
  then show ?thesis using beta_facts by (simp add: cloneAsReference_options_def)
qed

text \<open>
  Claim C3, amended. The network operations offer no credentials and never retry:
  \<open>Init\<close> makes at most one request and \<open>Sync\<close> at most two (the pull and the
  listing of the remote refs), every one of them without credentials; when the remote
  rejects the request, \<open>Init\<close> and \<open>Sync\<close> fail at once with the error of the
  engine, wrapped as a failed clone or a failed pull, after that single request.
\<close>

theorem network_operations_offer_no_credentials:
  "opt_Auth (cloneAsReference_options url) = None \<and>
   (Init n w = (res, w') \<longrightarrow> anonymous_requests w w' 1) \<and>
   (Sync n w = (res, w') \<longrightarrow> anonymous_requests w w' 2) \<and>
   (loadRepoFromVault w n = Inr e \<and> pristines w n = NoDir \<and>
    \<not> io_fails w (MkdirPristine n) \<and> network w (URL e) None = Inl g \<longrightarrow>
      Init n w =
        (Inl (Wrap ''failed to clone repository''
               (Wrap ''failed to clone repository'' (GitError g))),
         w\<lparr>pristines := (pristines w)(n := PlainDir),
           net_log := net_log w @ [(URL e, None)]\<rparr>)) \<and>
   (pristines w n = RepoDir r \<and> \<not> is_bare r \<and> origin_urls r = Some (u # us) \<and>
    network w u None = Inl g \<and> g \<noteq> NoErrAlreadyUpToDate \<longrightarrow>
      Sync n w =
        (Inl (Wrap ''failed to pull changes'' (GitError g)),
         w\<lparr>net_log := net_log w @ [(u, None)]\<rparr>))"
proof (intro conjI impI)
  show "opt_Auth (cloneAsReference_options url) = None"
    by (simp add: cloneAsReference_options_def)
next
  assume "Init n w = (res, w')"
  from Init_log [OF this] show "anonymous_requests w w' 1"
    using anonymous_requests_same [of w' w 1] anonymous_requests_one [of w' w _ 0] by auto
next
  assume "Sync n w = (res, w')"
  from Sync_log [OF this] show "anonymous_requests w w' 2"
    using anonymous_requests_same [of w' w 2] anonymous_requests_one [of w' w _ 1]
      anonymous_requests_two [of w' w _ _ 0]
    by (auto simp: numeral_2_eq_2)
next
  assume "loadRepoFromVault w n = Inr e \<and> pristines w n = NoDir \<and>
    \<not> io_fails w (MkdirPristine n) \<and> network w (URL e) None = Inl g"
  then show "Init n w =
        (Inl (Wrap ''failed to clone repository''
               (Wrap ''failed to clone repository'' (GitError g))),
         w\<lparr>pristines := (pristines w)(n := PlainDir),
           net_log := net_log w @ [(URL e, None)]\<rparr>)"
    using Init_rejected by blast
next
  assume "pristines w n = RepoDir r \<and> \<not> is_bare r \<and> origin_urls r = Some (u # us) \<and>
    network w u None = Inl g \<and> g \<noteq> NoErrAlreadyUpToDate"
  then show "Sync n w =
        (Inl (Wrap ''failed to pull changes'' (GitError g)),
         w\<lparr>net_log := net_log w @ [(u, None)]\<rparr>)"
    using Sync_rejected by blast
qed

theorem network_operations_offer_no_credentials_witness:
  "Init ''beta'' vault_world =
     (Inl (Wrap ''failed to clone repository''
            (Wrap ''failed to clone repository'' (GitError ErrAuthenticationRequired))),
      vault_world\<lparr>pristines := (pristines vault_world)(''beta'' := PlainDir),
        net_log := net_log vault_world @ [(''https://example.com/o/beta.git'', None)]\<rparr>) \<and>
   anonymous_requests vault_world
     (vault_world\<lparr>pristines := (pristines vault_world)(''beta'' := PlainDir),
        net_log := net_log vault_world @ [(''https://example.com/o/beta.git'', None)]\<rparr>) 1 \<and>
   Sync ''alpha'' (pristine_world\<lparr>network := (\<lambda>u a. Inl ErrAuthenticationRequired)\<rparr>) =
     (Inl (Wrap ''failed to pull changes'' (GitError ErrAuthenticationRequired)),
      pristine_world\<lparr>network := (\<lambda>u a. Inl ErrAuthenticationRequired),
        net_log := net_log (pristine_world\<lparr>network := (\<lambda>u a. Inl ErrAuthenticationRequired)\<rparr>) @
                     [(''https://example.com/o/alpha.git'', None)]\<rparr>) \<and>
   anonymous_requests (pristine_world\<lparr>network := (\<lambda>u a. Inl ErrAuthenticationRequired)\<rparr>)
     (pristine_world\<lparr>network := (\<lambda>u a. Inl ErrAuthenticationRequired),
        net_log := net_log (pristine_world\<lparr>network := (\<lambda>u a. Inl ErrAuthenticationRequired)\<rparr>) @
                     [(''https://example.com/o/alpha.git'', None)]\<rparr>) 2"
proof -
  let ?e = "\<lparr>Name = ''beta'', URL = ''https://example.com/o/beta.git'', AddedOn = 0\<rparr>"
  let ?W1 = "vault_world\<lparr>pristines := (pristines vault_world)(''beta'' := PlainDir),
        net_log := net_log vault_world @ [(''https://example.com/o/beta.git'', None)]\<rparr>"
  let ?X = "Inl (Wrap ''failed to clone repository''
            (Wrap ''failed to clone repository'' (GitError ErrAuthenticationRequired)))
            :: err + unit"
  let ?V = "pristine_world\<lparr>network := (\<lambda>u a. Inl ErrAuthenticationRequired)\<rparr>"
  let ?W2 = "?V\<lparr>net_log := net_log ?V @ [(''https://example.com/o/alpha.git'', None)]\<rparr>"
  let ?Y = "Inl (Wrap ''failed to pull changes'' (GitError ErrAuthenticationRequired)) :: err + unit"
  note t1 = network_operations_offer_no_credentials
    [where n = "''beta''" and w = vault_world and res = ?X and w' = ?W1 and e = ?e
       and g = ErrAuthenticationRequired]
  have h1: "loadRepoFromVault vault_world ''beta'' = Inr ?e \<and> pristines vault_world ''beta'' = NoDir \<and>
    \<not> io_fails vault_world (MkdirPristine ''beta'') \<and>
    network vault_world (URL ?e) None = Inl ErrAuthenticationRequired"
    using beta_facts by simp
  from t1 h1 have i: "Init ''beta'' vault_world = (?X, ?W1)" by simp
  from t1 i have a1: "anonymous_requests vault_world ?W1 1" by blast
  note t2 = network_operations_offer_no_credentials
    [where n = "''alpha''" and w = ?V and res = ?Y and w' = ?W2 and r = example_pristine
       and u = "''https://example.com/o/alpha.git''" and us = "[]"
       and g = ErrAuthenticationRequired]
  have h2: "pristines ?V ''alpha'' = RepoDir example_pristine \<and> \<not> is_bare example_pristine \<and>
    origin_urls example_pristine = Some (''https://example.com/o/alpha.git'' # []) \<and>
    network ?V ''https://example.com/o/alpha.git'' None = Inl ErrAuthenticationRequired \<and>
    ErrAuthenticationRequired \<noteq> NoErrAlreadyUpToDate"
    by (simp add: pristine_world_def example_pristine_def)
  from t2 h2 have s: "Sync ''alpha'' ?V = (?Y, ?W2)" by simp
  from t2 s have a2: "anonymous_requests ?V ?W2 2" by blast
  from i a1 s a2 show ?thesis by simp
qed

end
